theory Spec2Isabelle
  imports Complex_Main "HOL-Library.Sublist" "HOL-Library.Log_Nat"
begin

section \<open>The lung-disease diagnosis script (main.py)\<close>

text \<open>
  The script loads a pretrained classifier once, then reads file paths in a loop; for each
  path it preprocesses the image, runs inference, compares every class probability with a
  fixed cutoff and prints a report with a final diagnosis line.

  Conventions of the embedding:
  \<^item> A floating-point number is the rational it denotes. A Python float literal denotes the
    nearest double (\<open>float64_of\<close>), so the table of cutoffs holds doubles, not decimals. In
    \<^verbatim>\<open>prob > threshold\<close> the left operand is an element of the array that inference returned
    and the right operand is a Python float: NumPy converts the right operand to the type in
    which it compares. That conversion is the field \<open>promote\<close> of the environment: the
    identity where the comparison is made in double precision (NumPy 1), rounding to single
    precision where an element of a single-precision array is compared in single precision
    (NumPy 2). Once both operands have the same type the comparison is the comparison of the
    numbers. NaN and the bounds of the exponent range are not modelled.
  \<^item> A Python string that comes from the user or names a file is the list of its code
    points (\<open>str\<close>); the names of the classes, which are ASCII constants of the source, are
    Isabelle strings.
  \<^item> Every \<^verbatim>\<open>print\<close> call site of the source is one constructor of \<open>line\<close>, carrying the
    values interpolated into the text; the fixed wording, the emoji and the number formats
    (\<^verbatim>\<open>{prob:.1%}\<close>, \<^verbatim>\<open>{name:<15}\<close>) are not spelled out. The prompt that \<^verbatim>\<open>input\<close> writes is a
    line as well. Writing to the output stream is taken to succeed.
  \<^item> The calls into the deep-learning and imaging libraries and into \<^verbatim>\<open>os.path\<close> are fields
    of an environment record; a call that may raise returns \<open>exn + 'a\<close>. The calls that load the
    model, load an image and run inference are logged in the trace of events, next to the
    printed lines, in the order in which they happen.
  \<^item> A raised exception is the value \<open>Inl e\<close>. The type \<open>exn\<close> stands for instances of
    Python's \<^verbatim>\<open>Exception\<close>; asynchronous interrupts are outside the model.
  \<^item> Standard input is the finite list of lines it delivers before end of file, where
    \<^verbatim>\<open>input\<close> raises \<^verbatim>\<open>EOFError\<close>.
\<close>

subsection \<open>Floating-point values\<close>

text \<open>
  \<open>round_to p x\<close> is \<open>x\<close> rounded to the nearest number with a significand of \<open>p\<close> bits, ties
  to the even significand (the default rounding of IEEE 754). \<open>ilog2 x\<close> is the exponent of
  a positive \<open>x\<close>: the integer \<open>e\<close> with \<open>pow2 e \<le> x < pow2 (e + 1)\<close>.
\<close>

definition pow2 :: "int \<Rightarrow> rat" where
  "pow2 k = (if 0 \<le> k then 2 ^ nat k else 1 / 2 ^ nat (- k))"

definition ilog2 :: "rat \<Rightarrow> int" where
  "ilog2 x =
     (case quotient_of x of
        (a, b) \<Rightarrow> (let k = bitlen a - bitlen b in if pow2 k \<le> x then k else k - 1))"

definition round_half_even :: "rat \<Rightarrow> int" where
  "round_half_even x =
     (let f = \<lfloor>x\<rfloor>; d = x - of_int f
      in if d < 1 / 2 then f else if 1 / 2 < d then f + 1 else if even f then f else f + 1)"

definition round_to :: "nat \<Rightarrow> rat \<Rightarrow> rat" where
  "round_to p x =
     (if x = 0 then 0
      else (let ulp = pow2 (ilog2 \<bar>x\<bar> - int p + 1)
            in of_int (round_half_even (x / ulp)) * ulp))"

definition float64_of :: "rat \<Rightarrow> rat" where
  "float64_of = round_to 53"

definition float32_of :: "rat \<Rightarrow> rat" where
  "float32_of = round_to 24"

text \<open>The two conversions of the right operand of \<^verbatim>\<open>prob > threshold\<close> named above.\<close>

definition compare_in_float64 :: "rat \<Rightarrow> rat" where
  "compare_in_float64 threshold = threshold"

definition compare_in_float32 :: "rat \<Rightarrow> rat" where
  "compare_in_float32 threshold = float32_of threshold"

subsection \<open>Data\<close>

type_synonym str = "nat list"

definition str :: "string \<Rightarrow> str" where
  "str s = map of_char s"

datatype key = Idx nat | Name string

datatype exn =
    FileNotFoundError str
  | KeyError key
  | IndexError
  | EOFError
  | LibraryError string

datatype status = DETECTED | Clear

datatype line =
    Loading_AI_Brain
  | AI_System_Online
  | File_not_found str
  | Analyzing_Patient str
  | Detailed_Report
  | Row string rat rat status
  | Rule
  | Healthy_Lungs
  | Signs_of string
  | Inconclusive
  | Critical_Error exn
  | Prompt

type_synonym array3 = "rat list list list"
type_synonym array4 = "rat list list list list"

datatype 'm call =
    Load_model str
  | Load_img str
  | Predict 'm array4

datatype 'm event = Print line | Call "'m call"

record 'm LungDoctor =
  model :: 'm

record ('m, 'img) env =
  path_exists :: "str \<Rightarrow> bool"
  basename :: "str \<Rightarrow> str"
  load_model :: "str \<Rightarrow> exn + 'm"
  load_img :: "str \<Rightarrow> exn + 'img"
  img_to_array :: "'img \<Rightarrow> array3"
  predict :: "'m \<Rightarrow> array4 \<Rightarrow> exn + rat list list"
  promote :: "rat \<Rightarrow> rat"

subsection \<open>Configuration (lines 11--29)\<close>

definition thresholds :: "string \<rightharpoonup> rat" where
  "thresholds = map_of
     [(''Covid'', float64_of (1241 / 10000)),
      (''Normal'', float64_of (1651 / 10000)),
      (''Pneumonia'', float64_of (2921 / 10000)),
      (''Tuberculosis'', float64_of (1766 / 10000)),
      (''Tumor'', float64_of (1009 / 10000))]"

definition class_names :: "nat \<rightharpoonup> string" where
  "class_names = map_of
     [(0, ''Covid''),
      (1, ''Normal''),
      (2, ''Pneumonia''),
      (3, ''Tuberculosis''),
      (4, ''Tumor'')]"

definition MODEL_PATH :: str where
  "MODEL_PATH = str ''final_lung_ai_v1.h5''"

subsection \<open>String helpers of the Python library\<close>

text \<open>\<^verbatim>\<open>sep.join(xs)\<close>.\<close>

fun join :: "string \<Rightarrow> string list \<Rightarrow> string" where
  "join sep [] = []"
| "join sep [x] = x"
| "join sep (x # y # ys) = x @ sep @ join sep (y # ys)"

text \<open>
  \<^verbatim>\<open>str.strip()\<close> removes the leading and the trailing code points for which \<^verbatim>\<open>str.isspace()\<close>
  holds: the list below is all of them.
\<close>

definition is_space :: "nat \<Rightarrow> bool" where
  "is_space c =
     (c \<in> set [0x09, 0x0A, 0x0B, 0x0C, 0x0D, 0x1C, 0x1D, 0x1E, 0x1F, 0x20, 0x85, 0xA0,
               0x1680, 0x2000, 0x2001, 0x2002, 0x2003, 0x2004, 0x2005, 0x2006, 0x2007,
               0x2008, 0x2009, 0x200A, 0x2028, 0x2029, 0x202F, 0x205F, 0x3000])"

definition strip :: "str \<Rightarrow> str" where
  "strip s = rev (dropWhile is_space (rev (dropWhile is_space s)))"

text \<open>\<^verbatim>\<open>s.replace(c, "")\<close> for a single code point \<open>c\<close>.\<close>

definition remove_char :: "nat \<Rightarrow> str \<Rightarrow> str" where
  "remove_char c s = filter (\<lambda>d. d \<noteq> c) s"

text \<open>
  \<^verbatim>\<open>str.lower()\<close> on the ASCII letters. Outside ASCII \<^verbatim>\<open>str.lower()\<close> changes more code points,
  but it maps none of them to an ASCII letter of \<^verbatim>\<open>exit\<close> or \<^verbatim>\<open>quit\<close> alone, so the test of
  line 104, the only use of \<^verbatim>\<open>lower\<close>, has the same result with either function.
\<close>

definition lower_char :: "nat \<Rightarrow> nat" where
  "lower_char c = (if 65 \<le> c \<and> c \<le> 90 then c + 32 else c)"

definition lower :: "str \<Rightarrow> str" where
  "lower s = map lower_char s"

subsection \<open>\<^verbatim>\<open>LungDoctor.__init__\<close> (lines 35--41)\<close>

definition LungDoctor_init :: "('m, 'img) env \<Rightarrow> (exn + 'm LungDoctor) \<times> 'm event list" where
  "LungDoctor_init env =
     (if \<not> path_exists env MODEL_PATH
      then (Inl (FileNotFoundError MODEL_PATH), [Print Loading_AI_Brain])
      else
        (case load_model env MODEL_PATH of
           Inl e \<Rightarrow> (Inl e, [Print Loading_AI_Brain, Call (Load_model MODEL_PATH)])
         | Inr m \<Rightarrow>
             (Inr \<lparr>model = m\<rparr>,
              [Print Loading_AI_Brain, Call (Load_model MODEL_PATH), Print AI_System_Online])))"

subsection \<open>\<^verbatim>\<open>LungDoctor.preprocess_image\<close> (lines 43--49)\<close>

definition preprocess_image ::
  "('m, 'img) env \<Rightarrow> str \<Rightarrow> (exn + array4) \<times> 'm event list" where
  "preprocess_image env img_path =
     (case load_img env img_path of
        Inl e \<Rightarrow> (Inl e, [Call (Load_img img_path)])
      | Inr img \<Rightarrow>
          (let img_array = img_to_array env img;
               expanded = [img_array];
               normalized = map (map (map (map (\<lambda>x. x / 255)))) expanded
           in (Inr normalized, [Call (Load_img img_path)])))"

subsection \<open>\<^verbatim>\<open>LungDoctor.diagnose\<close> (lines 51--91)\<close>

text \<open>
  The loop of lines 67--78 over \<^verbatim>\<open>enumerate(predictions)\<close>, with the list \<^verbatim>\<open>findings\<close> as
  accumulator; the second component lists the rows printed. The first argument is NumPy's
  conversion of the right operand of the comparison of line 71. A class index outside the
  table of class names raises \<^verbatim>\<open>KeyError\<close>; the rows printed before stay printed.
\<close>

fun report_loop ::
  "(rat \<Rightarrow> rat) \<Rightarrow> (nat \<times> rat) list \<Rightarrow> string list \<Rightarrow> (exn + string list) \<times> line list" where
  "report_loop prom [] findings = (Inr findings, [])"
| "report_loop prom ((idx, prob) # rest) findings =
     (case class_names idx of
        None \<Rightarrow> (Inl (KeyError (Idx idx)), [])
      | Some name \<Rightarrow>
          (case thresholds name of
             None \<Rightarrow> (Inl (KeyError (Name name)), [])
           | Some threshold \<Rightarrow>
               (let is_detected = (prob > prom threshold);
                    status = (if is_detected then DETECTED else Clear);
                    findings' = (if is_detected then findings @ [name] else findings);
                    (r, ls) = report_loop prom rest findings'
                in (r, Row name prob threshold status # ls))))"

text \<open>The final conclusion of lines 82--91.\<close>

definition conclusion :: "string list \<Rightarrow> line" where
  "conclusion findings =
     (if ''Normal'' \<in> set findings \<and> length findings = 1 then Healthy_Lungs
      else if findings \<noteq> [] then
        (let real_diseases = filter (\<lambda>f. f \<noteq> ''Normal'') findings
         in if real_diseases \<noteq> [] then Signs_of (join '', '' real_diseases)
            else Healthy_Lungs)
      else Inconclusive)"

text \<open>
  Lines 63--91: the lines printed for one vector of predictions, the report and then the
  conclusion.
\<close>

definition safety_rules :: "(rat \<Rightarrow> rat) \<Rightarrow> rat list \<Rightarrow> (exn + unit) \<times> line list" where
  "safety_rules prom predictions =
     (case report_loop prom (enumerate 0 predictions) [] of
        (Inl e, ls) \<Rightarrow> (Inl e, Detailed_Report # ls)
      | (Inr findings, ls) \<Rightarrow>
          (Inr (), Detailed_Report # ls @ [Rule, conclusion findings]))"

definition diagnose ::
  "('m, 'img) env \<Rightarrow> 'm LungDoctor \<Rightarrow> str \<Rightarrow> (exn + 'm LungDoctor) \<times> 'm event list" where
  "diagnose env self img_path =
     (if \<not> path_exists env img_path then (Inr self, [Print (File_not_found img_path)])
      else
        (let hd_evs = [Print (Analyzing_Patient (basename env img_path))] in
         case preprocess_image env img_path of
           (Inl e, evs1) \<Rightarrow> (Inl e, hd_evs @ evs1)
         | (Inr processed_img, evs1) \<Rightarrow>
             (let evs2 = hd_evs @ evs1 @ [Call (Predict (model self) processed_img)] in
              case predict env (model self) processed_img of
                Inl e \<Rightarrow> (Inl e, evs2)
              | Inr [] \<Rightarrow> (Inl IndexError, evs2)
              | Inr (predictions # _) \<Rightarrow>
                  (case safety_rules (promote env) predictions of
                     (Inl e, ls) \<Rightarrow> (Inl e, evs2 @ map Print ls)
                   | (Inr _, ls) \<Rightarrow> (Inr self, evs2 @ map Print ls)))))"

subsection \<open>The command loop and the top-level handler (lines 96--111)\<close>

definition clean :: "str \<Rightarrow> str" where
  "clean l = remove_char 0x27 (remove_char 0x22 (strip l))"

definition is_exit :: "str \<Rightarrow> bool" where
  "is_exit path = (lower path \<in> set [str ''exit'', str ''quit''])"

fun command_loop ::
  "('m, 'img) env \<Rightarrow> 'm LungDoctor \<Rightarrow> str list \<Rightarrow> (exn + 'm LungDoctor) \<times> 'm event list" where
  "command_loop env doctor [] = (Inl EOFError, [Print Prompt])"
| "command_loop env doctor (l # rest) =
     (let path = clean l in
      if is_exit path then (Inr doctor, [Print Prompt])
      else if path \<noteq> [] then
        (case diagnose env doctor path of
           (Inl e, evs) \<Rightarrow> (Inl e, Print Prompt # evs)
         | (Inr doctor', evs) \<Rightarrow>
             (case command_loop env doctor' rest of
                (r, evs') \<Rightarrow> (r, Print Prompt # evs @ evs')))
      else
        (case command_loop env doctor rest of
           (r, evs') \<Rightarrow> (r, Print Prompt # evs')))"

definition main :: "('m, 'img) env \<Rightarrow> str list \<Rightarrow> 'm event list" where
  "main env inputs =
     (case LungDoctor_init env of
        (Inl e, evs) \<Rightarrow> evs @ [Print (Critical_Error e)]
      | (Inr doctor, evs) \<Rightarrow>
          (case command_loop env doctor inputs of
             (Inl e, evs') \<Rightarrow> evs @ evs' @ [Print (Critical_Error e)]
           | (Inr _, evs') \<Rightarrow> evs @ evs'))"

subsection \<open>Notions used to state the properties\<close>

text \<open>
  The comparison of lines 68--71 for one class index and one probability: the index has a
  name, the name has a cutoff, and the probability is strictly above the cutoff as NumPy
  compares it.
\<close>

definition over_threshold :: "(rat \<Rightarrow> rat) \<Rightarrow> nat \<Rightarrow> rat \<Rightarrow> bool" where
  "over_threshold prom idx prob =
     (case class_names idx of
        None \<Rightarrow> False
      | Some name \<Rightarrow>
          (case thresholds name of
             None \<Rightarrow> False
           | Some threshold \<Rightarrow> prob > prom threshold))"

text \<open>Class \<open>idx\<close> exceeds its threshold in a vector of predictions.\<close>

definition exceeds :: "(rat \<Rightarrow> rat) \<Rightarrow> rat list \<Rightarrow> nat \<Rightarrow> bool" where
  "exceeds prom predictions idx =
     (idx < length predictions \<and> over_threshold prom idx (predictions ! idx))"

text \<open>The names of the classes that exceed their thresholds, by ascending class index.\<close>

definition detected_names :: "(rat \<Rightarrow> rat) \<Rightarrow> rat list \<Rightarrow> string list" where
  "detected_names prom predictions =
     List.map_filter class_names (filter (exceeds prom predictions) [0..<length predictions])"

text \<open>The same for the classes whose name is not Normal.\<close>

definition detected_diseases :: "(rat \<Rightarrow> rat) \<Rightarrow> rat list \<Rightarrow> string list" where
  "detected_diseases prom predictions =
     List.map_filter class_names
       (filter (\<lambda>idx. class_names idx \<noteq> Some ''Normal'' \<and> exceeds prom predictions idx)
          [0..<length predictions])"

text \<open>The row of the report for one class index and one probability (lines 68--78).\<close>

definition report_row :: "(rat \<Rightarrow> rat) \<Rightarrow> nat \<times> rat \<Rightarrow> line option" where
  "report_row prom x =
     (case class_names (fst x) of
        None \<Rightarrow> None
      | Some name \<Rightarrow>
          (case thresholds name of
             None \<Rightarrow> None
           | Some threshold \<Rightarrow>
               Some (Row name (snd x) threshold
                       (if snd x > prom threshold then DETECTED else Clear))))"

text \<open>The three kinds of final diagnosis line (lines 83, 87, 89 and 91).\<close>

fun is_final_diagnosis :: "line \<Rightarrow> bool" where
  "is_final_diagnosis Healthy_Lungs = True"
| "is_final_diagnosis (Signs_of names) = True"
| "is_final_diagnosis Inconclusive = True"
| "is_final_diagnosis other = False"

fun is_load_model :: "'m event \<Rightarrow> bool" where
  "is_load_model (Call (Load_model p)) = True"
| "is_load_model other = False"

text \<open>
  A small environment on which the properties are run: the model file and two image files
  exist, one of which the imaging library cannot read; every inference returns the same
  vector of single-precision numbers, and comparisons are made in single precision. The
  variants differ in what inference returns.
\<close>

definition demo_env :: "(nat, unit) env" where
  "demo_env =
     \<lparr>path_exists = (\<lambda>p. p \<in> set [MODEL_PATH, str ''xray.png'', str ''bad.png'']),
      basename = (\<lambda>p. p),
      load_model = (\<lambda>p. Inr 7),
      load_img =
        (\<lambda>p. if p = str ''bad.png'' then Inl (LibraryError ''cannot identify image file'')
             else Inr ()),
      img_to_array = (\<lambda>img. [[[255, 0, 255]]]),
      predict = (\<lambda>m a. Inr [[1 / 2, 1 / 4, 0, 0, 0]]),
      promote = compare_in_float32\<rparr>"

definition wide_env :: "(nat, unit) env" where
  "wide_env = demo_env\<lparr>predict := (\<lambda>m a. Inr [[1 / 2, 1 / 4, 0, 0, 0, 1 / 2]])\<rparr>"

definition empty_env :: "(nat, unit) env" where
  "empty_env = demo_env\<lparr>predict := (\<lambda>m a. Inr [])\<rparr>"

section \<open>Properties\<close>

subsection \<open>Auxiliary facts about the report loop and the conclusion\<close>

lemma class_names_dom:
  assumes "idx < 5"
  shows "\<exists>name. class_names idx = Some name \<and> name \<in> dom thresholds"
proof -
  from assms have "idx = 0 \<or> idx = 1 \<or> idx = 2 \<or> idx = 3 \<or> idx = 4" by arith
  then show ?thesis
    unfolding thresholds_def dom_map_of_conv_image_fst
    by (elim disjE) (simp_all add: class_names_def)
qed

lemma class_names_lt5:
  assumes "idx < 5"
  shows "\<exists>name t. class_names idx = Some name \<and> thresholds name = Some t"
  using class_names_dom [OF assms] by blast

lemma class_names_Normal: "class_names idx = Some ''Normal'' \<longleftrightarrow> idx = 1"
  by (auto simp: class_names_def split: if_splits)

lemma class_names_5: "class_names 5 = None"
  by (simp add: class_names_def)

text \<open>
  The loop over a list whose first part has indices of the table only: the findings and the
  rows of that part, then the loop over the rest.
\<close>

lemma report_loop_append:
  "\<forall>x \<in> set xs. fst x < 5 \<Longrightarrow>
   report_loop prom (xs @ ys) acc =
     (case report_loop prom ys
             (acc @ List.map_filter (\<lambda>x. class_names (fst x))
                      (filter (\<lambda>x. over_threshold prom (fst x) (snd x)) xs)) of
        (r, ls) \<Rightarrow> (r, List.map_filter (report_row prom) xs @ ls))"
proof (induction xs arbitrary: acc)
  case Nil
  show ?case by (simp split: prod.splits)
next
  case (Cons x xs)
  obtain idx prob where x: "x = (idx, prob)" by (cases x)
  from Cons.prems x have "idx < 5" by simp
  then obtain name t where n: "class_names idx = Some name" "thresholds name = Some t"
    using class_names_lt5 by blast
  from Cons.prems have rest: "\<forall>x \<in> set xs. fst x < 5" by simp
  show ?case
  proof (cases "prob > prom t")
    case True
    with x n Cons.IH [OF rest, of "acc @ [name]"] show ?thesis
      by (simp add: over_threshold_def report_row_def split: prod.splits)
  next
    case False
    with x n Cons.IH [OF rest, of acc] show ?thesis
      by (simp add: over_threshold_def report_row_def split: prod.splits)
  qed
qed

lemma enumerate_nth: "enumerate 0 ps = map (\<lambda>i. (i, ps ! i)) [0..<length ps]"
  by (rule nth_equalityI) (simp_all add: nth_enumerate_eq)

lemma map_filter_map: "List.map_filter f (map g xs) = List.map_filter (\<lambda>x. f (g x)) xs"
  by (induction xs) (simp_all split: option.split)

lemma found_enumerate:
  "List.map_filter (\<lambda>x. class_names (fst x))
     (filter (\<lambda>x. over_threshold prom (fst x) (snd x)) (enumerate 0 ps)) = detected_names prom ps"
proof -
  have "filter (\<lambda>i. over_threshold prom i (ps ! i)) [0..<length ps]
      = filter (exceeds prom ps) [0..<length ps]"
    by (rule filter_cong) (auto simp: exceeds_def)
  then have "filter (\<lambda>x. over_threshold prom (fst x) (snd x)) (enumerate 0 ps)
      = map (\<lambda>i. (i, ps ! i)) (filter (exceeds prom ps) [0..<length ps])"
    by (simp add: enumerate_nth filter_map comp_def)
  then show ?thesis
    by (simp add: map_filter_map detected_names_def)
qed

lemma findings_enumerate:
  assumes "length ps \<le> 5"
  shows "report_loop prom (enumerate 0 ps) [] =
           (Inr (detected_names prom ps), List.map_filter (report_row prom) (enumerate 0 ps))"
proof -
  have small: "\<forall>x \<in> set (enumerate 0 ps). fst x < 5"
    using assms by (auto simp: in_set_enumerate_eq)
  from report_loop_append [OF small, of prom "[]" "[]"] show ?thesis
    by (simp add: found_enumerate)
qed

lemma report_loop_long:
  assumes "5 < length ps"
  shows "report_loop prom (enumerate 0 ps) [] =
           (Inl (KeyError (Idx 5)), List.map_filter (report_row prom) (enumerate 0 (take 5 ps)))"
proof -
  from assms obtain p rest where d: "drop 5 ps = p # rest"
    by (cases "drop 5 ps") auto
  have len: "length (take 5 ps) = 5" using assms by simp
  have "enumerate 0 (take 5 ps @ p # rest) =
      enumerate 0 (take 5 ps) @ enumerate (0 + length (take 5 ps)) (p # rest)"
    by (rule enumerate_append_eq)
  moreover have "take 5 ps @ p # rest = ps"
    using d by (metis append_take_drop_id)
  ultimately have e: "enumerate 0 ps = enumerate 0 (take 5 ps) @ (5, p) # enumerate (Suc 5) rest"
    using len by simp
  have small: "\<forall>x \<in> set (enumerate 0 (take 5 ps)). fst x < 5"
    by (auto simp: in_set_enumerate_eq)
  show ?thesis
    unfolding e using report_loop_append [OF small, of prom "(5, p) # enumerate (Suc 5) rest" "[]"]
    by (simp add: class_names_5)
qed


lemma safety_rules_ok:
  assumes "length ps \<le> 5"
  shows "safety_rules prom ps =
     (Inr (),
      Detailed_Report # List.map_filter (report_row prom) (enumerate 0 ps)
        @ [Rule, conclusion (detected_names prom ps)])"
  using findings_enumerate [OF assms] by (simp add: safety_rules_def)

lemma safety_rules_long:
  assumes "5 < length ps"
  shows "safety_rules prom ps =
     (Inl (KeyError (Idx 5)),
      Detailed_Report # List.map_filter (report_row prom) (enumerate 0 (take 5 ps)))"
  using report_loop_long [OF assms] by (simp add: safety_rules_def)

lemma safety_rules_last:
  assumes "length ps \<le> 5"
  shows "fst (safety_rules prom ps) = Inr () \<and>
         last (snd (safety_rules prom ps)) = conclusion (detected_names prom ps)"
  by (simp add: safety_rules_ok [OF assms])

text \<open>The rows, class by class.\<close>

lemma report_row_simps:
  "report_row prom (0, p) =
     Some (Row ''Covid'' p (float64_of (1241 / 10000))
             (if p > prom (float64_of (1241 / 10000)) then DETECTED else Clear))"
  "report_row prom (Suc 0, p) =
     Some (Row ''Normal'' p (float64_of (1651 / 10000))
             (if p > prom (float64_of (1651 / 10000)) then DETECTED else Clear))"
  "report_row prom (2, p) =
     Some (Row ''Pneumonia'' p (float64_of (2921 / 10000))
             (if p > prom (float64_of (2921 / 10000)) then DETECTED else Clear))"
  "report_row prom (3, p) =
     Some (Row ''Tuberculosis'' p (float64_of (1766 / 10000))
             (if p > prom (float64_of (1766 / 10000)) then DETECTED else Clear))"
  "report_row prom (4, p) =
     Some (Row ''Tumor'' p (float64_of (1009 / 10000))
             (if p > prom (float64_of (1009 / 10000)) then DETECTED else Clear))"
  by (simp_all add: report_row_def class_names_def thresholds_def)

lemma report_row_nth:
  assumes "i < 5"
  shows "report_row prom (i, p) =
     Some (Row ([''Covid'', ''Normal'', ''Pneumonia'', ''Tuberculosis'', ''Tumor''] ! i) p
             ([float64_of (1241 / 10000), float64_of (1651 / 10000), float64_of (2921 / 10000),
               float64_of (1766 / 10000), float64_of (1009 / 10000)] ! i)
             (if p > prom ([float64_of (1241 / 10000), float64_of (1651 / 10000),
                            float64_of (2921 / 10000), float64_of (1766 / 10000),
                            float64_of (1009 / 10000)] ! i)
              then DETECTED else Clear))"
proof -
  from assms have "i = 0 \<or> i = 1 \<or> i = 2 \<or> i = 3 \<or> i = 4" by arith
  then show ?thesis
    by (elim disjE) (simp_all add: report_row_simps)
qed

lemma map_filter_Some:
  "\<forall>x \<in> set xs. f x = Some (g x) \<Longrightarrow> List.map_filter f xs = map g xs"
  by (induction xs) simp_all

lemma rows_upt:
  assumes "length ps \<le> 5"
  shows "List.map_filter (report_row prom) (enumerate 0 ps) =
     map (\<lambda>i. Row ([''Covid'', ''Normal'', ''Pneumonia'', ''Tuberculosis'', ''Tumor''] ! i) (ps ! i)
             ([float64_of (1241 / 10000), float64_of (1651 / 10000), float64_of (2921 / 10000),
               float64_of (1766 / 10000), float64_of (1009 / 10000)] ! i)
             (if ps ! i > prom ([float64_of (1241 / 10000), float64_of (1651 / 10000),
                                 float64_of (2921 / 10000), float64_of (1766 / 10000),
                                 float64_of (1009 / 10000)] ! i)
              then DETECTED else Clear))
       [0..<length ps]"
proof -
  have "\<forall>i \<in> set [0..<length ps]. i < 5" using assms by auto
  then show ?thesis
    unfolding enumerate_nth map_filter_map
    by (intro map_filter_Some ballI report_row_nth) blast
qed

lemma over_threshold_nth:
  assumes "i < 5"
  shows "over_threshold prom i p \<longleftrightarrow>
     p > prom ([float64_of (1241 / 10000), float64_of (1651 / 10000), float64_of (2921 / 10000),
                float64_of (1766 / 10000), float64_of (1009 / 10000)] ! i)"
proof -
  from assms have "i = 0 \<or> i = 1 \<or> i = 2 \<or> i = 3 \<or> i = 4" by arith
  then show ?thesis
    by (elim disjE) (simp_all add: over_threshold_def class_names_def thresholds_def)
qed

lemma class_names_nth:
  assumes "i < 5"
  shows "class_names i = Some ([''Covid'', ''Normal'', ''Pneumonia'', ''Tuberculosis'', ''Tumor''] ! i)"
proof -
  from assms have "i = 0 \<or> i = 1 \<or> i = 2 \<or> i = 3 \<or> i = 4" by arith
  then show ?thesis
    by (elim disjE) (simp_all add: class_names_def)
qed

lemma class_names_inj:
  assumes "class_names i = Some n" and "class_names j = Some n"
  shows "i = j"
  using assms by (auto simp: class_names_def split: if_splits)

text \<open>The conclusion as a function of the findings.\<close>

lemma conclusion_signs:
  "filter (\<lambda>f. f \<noteq> ''Normal'') fs \<noteq> [] \<Longrightarrow>
     conclusion fs = Signs_of (join '', '' (filter (\<lambda>f. f \<noteq> ''Normal'') fs))"
  by (cases fs) (auto simp: conclusion_def Let_def split: if_splits)

lemma conclusion_signs_only:
  assumes "conclusion fs = Signs_of s"
  shows "filter (\<lambda>f. f \<noteq> ''Normal'') fs \<noteq> [] \<and> s = join '', '' (filter (\<lambda>f. f \<noteq> ''Normal'') fs)"
  using assms by (auto simp: conclusion_def Let_def split: if_splits)

lemma conclusion_healthy:
  "fs \<noteq> [] \<Longrightarrow> filter (\<lambda>f. f \<noteq> ''Normal'') fs = [] \<Longrightarrow> conclusion fs = Healthy_Lungs"
  by (simp add: conclusion_def)

lemma conclusion_inconclusive: "conclusion [] = Inconclusive"
  by (simp add: conclusion_def)

lemma conclusion_cases:
  "conclusion fs =
     (if filter (\<lambda>f. f \<noteq> ''Normal'') fs \<noteq> []
      then Signs_of (join '', '' (filter (\<lambda>f. f \<noteq> ''Normal'') fs))
      else if fs = [] then Inconclusive else Healthy_Lungs)"
  by (simp add: conclusion_signs conclusion_healthy conclusion_inconclusive)

lemma is_final_conclusion: "is_final_diagnosis (conclusion fs)"
  by (simp add: conclusion_def Let_def)

text \<open>The findings and the diseases among them.\<close>

lemma filter_map_filter_class:
  "filter (\<lambda>f. f \<noteq> ''Normal'') (List.map_filter class_names xs)
     = List.map_filter class_names (filter (\<lambda>i. class_names i \<noteq> Some ''Normal'') xs)"
  by (induction xs) (auto split: option.splits)

lemma real_diseases_eq:
  "filter (\<lambda>f. f \<noteq> ''Normal'') (detected_names prom ps) = detected_diseases prom ps"
  by (simp add: detected_names_def detected_diseases_def filter_map_filter_class conj_commute)

lemma conclusion_detected:
  "conclusion (detected_names prom ps) =
     (if detected_diseases prom ps \<noteq> []
      then Signs_of (join '', '' (detected_diseases prom ps))
      else if detected_names prom ps = [] then Inconclusive else Healthy_Lungs)"
  by (simp add: conclusion_cases real_diseases_eq)

lemma set_map_filter: "set (List.map_filter f xs) = {y. \<exists>x \<in> set xs. f x = Some y}"
  by (induction xs) (auto split: option.splits)

lemma set_detected_names:
  "set (detected_names prom ps) = {n. \<exists>i. exceeds prom ps i \<and> class_names i = Some n}"
  by (auto simp: detected_names_def set_map_filter exceeds_def)

lemma set_detected_diseases:
  "set (detected_diseases prom ps) =
     {n. \<exists>i. exceeds prom ps i \<and> class_names i = Some n \<and> n \<noteq> ''Normal''}"
  by (auto simp: detected_diseases_def set_map_filter exceeds_def)

lemma detected_diseases_nonempty:
  assumes "length ps \<le> 5" "exceeds prom ps i" "class_names i \<noteq> Some ''Normal''"
  shows "detected_diseases prom ps \<noteq> []"
proof -
  from assms have "i < 5" by (simp add: exceeds_def)
  then obtain n where "class_names i = Some n" using class_names_lt5 by blast
  with assms have "n \<in> set (detected_diseases prom ps)"
    by (auto simp: set_detected_diseases)
  then show ?thesis by auto
qed

lemma filter_eq_upt: "filter (\<lambda>i. i = k) [0..<n] = (if k < n then [k] else [])"
  by (induction n) auto

lemma detected_names_only_normal:
  assumes "\<forall>i. exceeds prom ps i \<longleftrightarrow> class_names i = Some ''Normal''"
  shows "detected_names prom ps = [''Normal'']"
proof -
  from assms have "exceeds prom ps 1" by (simp add: class_names_Normal)
  then have len: "1 < length ps" by (simp add: exceeds_def)
  from assms have "exceeds prom ps = (\<lambda>i. i = 1)"
    by (simp add: class_names_Normal fun_eq_iff)
  then have "filter (exceeds prom ps) [0..<length ps] = filter (\<lambda>i. i = 1) [0..<length ps]"
    by simp
  with len have "filter (exceeds prom ps) [0..<length ps] = [1]"
    by (simp add: filter_eq_upt)
  then show ?thesis
    by (simp add: detected_names_def class_names_def)
qed

lemma detected_names_none:
  assumes "\<forall>i. \<not> exceeds prom ps i"
  shows "detected_names prom ps = []"
  using assms by (simp add: detected_names_def)

lemma subseq_map_filter:
  "subseq xs ys \<Longrightarrow> subseq (List.map_filter f xs) (List.map_filter f ys)"
  unfolding List.map_filter_def by (intro subseq_map) simp

lemma subseq_upt: "n \<le> m \<Longrightarrow> subseq [0..<n] [0..<m]"
proof -
  assume "n \<le> m"
  then have "[0..<m] = [0..<n] @ [n..<m]"
    by (metis le_add_diff_inverse upt_add_eq_append zero_le)
  moreover have "subseq [0..<n] ([0..<n] @ [n..<m])"
    by (rule subseq_rev_drop_many) (rule subseq_order.refl)
  ultimately show ?thesis by simp
qed

lemma disease_names_upt5:
  "List.map_filter class_names (filter (\<lambda>i. class_names i \<noteq> Some ''Normal'') [0..<5])
     = [''Covid'', ''Pneumonia'', ''Tuberculosis'', ''Tumor'']"
  by (simp add: class_names_def upt_rec)

lemma detected_diseases_subseq:
  assumes "length ps \<le> 5"
  shows "subseq (detected_diseases prom ps) [''Covid'', ''Pneumonia'', ''Tuberculosis'', ''Tumor'']"
proof -
  let ?R = "\<lambda>i. class_names i \<noteq> Some ''Normal''"
  have eq: "filter (\<lambda>i. ?R i \<and> exceeds prom ps i) [0..<length ps]
      = filter (exceeds prom ps) (filter ?R [0..<length ps])"
    by (simp add: conj_commute)
  have "subseq (filter (exceeds prom ps) (filter ?R [0..<length ps])) (filter ?R [0..<length ps])"
    by (rule subseq_filter_left)
  then have "subseq (filter (\<lambda>i. ?R i \<and> exceeds prom ps i) [0..<length ps])
      (filter ?R [0..<length ps])"
    by (simp only: eq)
  moreover have "subseq (filter ?R [0..<length ps]) (filter ?R [0..<5])"
    using subseq_upt [OF assms] by simp
  ultimately have "subseq (filter (\<lambda>i. ?R i \<and> exceeds prom ps i) [0..<length ps])
      (filter ?R [0..<5])"
    by (rule subseq_order.trans)
  then have "subseq (detected_diseases prom ps)
      (List.map_filter class_names (filter ?R [0..<5]))"
    unfolding detected_diseases_def by (rule subseq_map_filter)
  then show ?thesis by (simp only: disease_names_upt5)
qed

text \<open>The cutoffs of the table as doubles, and as NumPy compares them in single precision.\<close>

lemma thresholds_float64:
  "thresholds ''Covid'' = Some (8942347420106857 / 72057594037927936)"
  "thresholds ''Normal'' = Some (5948354387830951 / 36028797018963968)"
  "thresholds ''Pneumonia'' = Some (657750725577461 / 2251799813685248)"
  "thresholds ''Tuberculosis'' = Some (6362685553549037 / 36028797018963968)"
  "thresholds ''Tumor'' = Some (7270611238426929 / 72057594037927936)"
  by code_simp+

lemma thresholds_float32:
  "compare_in_float32 (8942347420106857 / 72057594037927936) = 4164105 / 33554432"
  "compare_in_float32 (5948354387830951 / 36028797018963968) = 11079673 / 67108864"
  "compare_in_float32 (657750725577461 / 2251799813685248) = 4900625 / 16777216"
  "compare_in_float32 (6362685553549037 / 36028797018963968) = 11851425 / 67108864"
  "compare_in_float32 (7270611238426929 / 72057594037927936) = 13542569 / 134217728"
  by code_simp+

subsection \<open>The per-class report\<close>

text \<open>
  Claim C4. For every prediction vector with at most one entry per class of the table and
  every class index in it, the report loop finishes without an exception and prints one row
  per entry. The row of the class carries its name, its probability and its own cutoff of
  the table, the Python float of the literal (Covid 0.1241, Normal 0.1651, Pneumonia 0.2921,
  Tuberculosis 0.1766, Tumor 0.1009), and the status DETECTED if the probability is strictly
  greater than that cutoff in the comparison that NumPy makes, and Clear otherwise; the name
  of the class is in the list of findings if and only if the status is DETECTED.
\<close>

theorem C4_detected_iff_over_threshold:
  assumes "length ps \<le> 5" and "idx < length ps"
  shows "\<exists>findings rows.
           report_loop prom (enumerate 0 ps) [] = (Inr findings, rows) \<and>
           length rows = length ps \<and>
           (let name = [''Covid'', ''Normal'', ''Pneumonia'', ''Tuberculosis'', ''Tumor''] ! idx;
                cutoff = [float64_of (1241 / 10000), float64_of (1651 / 10000),
                          float64_of (2921 / 10000), float64_of (1766 / 10000),
                          float64_of (1009 / 10000)] ! idx
            in rows ! idx =
                 Row name (ps ! idx) cutoff
                   (if ps ! idx > prom cutoff then DETECTED else Clear) \<and>
               (name \<in> set findings \<longleftrightarrow> ps ! idx > prom cutoff))"
proof -
  let ?names = "[''Covid'', ''Normal'', ''Pneumonia'', ''Tuberculosis'', ''Tumor'']"
  let ?cutoffs = "[float64_of (1241 / 10000), float64_of (1651 / 10000),
                   float64_of (2921 / 10000), float64_of (1766 / 10000),
                   float64_of (1009 / 10000)]"
  let ?rows = "List.map_filter (report_row prom) (enumerate 0 ps)"
  from assms have idx5: "idx < 5" by simp
  have run: "report_loop prom (enumerate 0 ps) [] = (Inr (detected_names prom ps), ?rows)"
    using assms(1) by (rule findings_enumerate)
  have len: "length ?rows = length ps"
    by (simp add: rows_upt [OF assms(1)])
  have row: "?rows ! idx =
      Row (?names ! idx) (ps ! idx) (?cutoffs ! idx)
        (if ps ! idx > prom (?cutoffs ! idx) then DETECTED else Clear)"
    using assms(2) by (simp add: rows_upt [OF assms(1)])
  have name: "class_names idx = Some (?names ! idx)"
    using idx5 by (rule class_names_nth)
  have "?names ! idx \<in> set (detected_names prom ps) \<longleftrightarrow> exceeds prom ps idx"
  proof
    assume "?names ! idx \<in> set (detected_names prom ps)"
    then obtain i where i: "exceeds prom ps i" "class_names i = Some (?names ! idx)"
      by (auto simp: set_detected_names)
    from i(2) name have "i = idx" by (rule class_names_inj)
    with i(1) show "exceeds prom ps idx" by simp
  next
    assume "exceeds prom ps idx"
    with name show "?names ! idx \<in> set (detected_names prom ps)"
      by (auto simp: set_detected_names)
  qed
  also have "\<dots> \<longleftrightarrow> ps ! idx > prom (?cutoffs ! idx)"
    using assms(2) by (simp add: exceeds_def over_threshold_nth [OF idx5])
  finally have mem: "?names ! idx \<in> set (detected_names prom ps) \<longleftrightarrow>
      ps ! idx > prom (?cutoffs ! idx)" .
  from run len row mem show ?thesis
    by (simp only: Let_def) blast
qed

text \<open>
  The theorem at a vector of single-precision numbers whose entries for Normal, Pneumonia and
  Tumor are the cutoffs rounded to single precision. Compared in single precision none of
  the three is above its cutoff. Compared in double precision Pneumonia and Tumor are, since
  single precision rounds these two cutoffs upwards.
\<close>

theorem C4_detected_iff_over_threshold_witness:
  "length [1 / 2, 11079673 / 67108864, 4900625 / 16777216, 0, 13542569 / 134217728 :: rat] \<le> 5 \<and>
   (2 :: nat) < length [1 / 2, 11079673 / 67108864, 4900625 / 16777216, 0, 13542569 / 134217728 :: rat] \<and>
   report_loop compare_in_float32
       (enumerate 0 [1 / 2, 11079673 / 67108864, 4900625 / 16777216, 0, 13542569 / 134217728]) [] =
     (Inr [''Covid''],
      [Row ''Covid'' (1 / 2) (8942347420106857 / 72057594037927936) DETECTED,
       Row ''Normal'' (11079673 / 67108864) (5948354387830951 / 36028797018963968) Clear,
       Row ''Pneumonia'' (4900625 / 16777216) (657750725577461 / 2251799813685248) Clear,
       Row ''Tuberculosis'' 0 (6362685553549037 / 36028797018963968) Clear,
       Row ''Tumor'' (13542569 / 134217728) (7270611238426929 / 72057594037927936) Clear]) \<and>
   report_loop compare_in_float64
       (enumerate 0 [1 / 2, 11079673 / 67108864, 4900625 / 16777216, 0, 13542569 / 134217728]) [] =
     (Inr [''Covid'', ''Pneumonia'', ''Tumor''],
      [Row ''Covid'' (1 / 2) (8942347420106857 / 72057594037927936) DETECTED,
       Row ''Normal'' (11079673 / 67108864) (5948354387830951 / 36028797018963968) Clear,
       Row ''Pneumonia'' (4900625 / 16777216) (657750725577461 / 2251799813685248) DETECTED,
       Row ''Tuberculosis'' 0 (6362685553549037 / 36028797018963968) Clear,
       Row ''Tumor'' (13542569 / 134217728) (7270611238426929 / 72057594037927936) DETECTED])"
proof -
  let ?ps = "[1 / 2, 11079673 / 67108864, 4900625 / 16777216, 0, 13542569 / 134217728 :: rat]"
  have len: "length ?ps \<le> 5" and idx: "(2 :: nat) < length ?ps" by simp_all
  have r32: "report_loop compare_in_float32 (enumerate 0 ?ps) [] =
     (Inr [''Covid''],
      [Row ''Covid'' (1 / 2) (8942347420106857 / 72057594037927936) DETECTED,
       Row ''Normal'' (11079673 / 67108864) (5948354387830951 / 36028797018963968) Clear,
       Row ''Pneumonia'' (4900625 / 16777216) (657750725577461 / 2251799813685248) Clear,
       Row ''Tuberculosis'' 0 (6362685553549037 / 36028797018963968) Clear,
       Row ''Tumor'' (13542569 / 134217728) (7270611238426929 / 72057594037927936) Clear])"
    by (simp add: class_names_def thresholds_float64 thresholds_float32)
  have r64: "report_loop compare_in_float64 (enumerate 0 ?ps) [] =
     (Inr [''Covid'', ''Pneumonia'', ''Tumor''],
      [Row ''Covid'' (1 / 2) (8942347420106857 / 72057594037927936) DETECTED,
       Row ''Normal'' (11079673 / 67108864) (5948354387830951 / 36028797018963968) Clear,
       Row ''Pneumonia'' (4900625 / 16777216) (657750725577461 / 2251799813685248) DETECTED,
       Row ''Tuberculosis'' 0 (6362685553549037 / 36028797018963968) Clear,
       Row ''Tumor'' (13542569 / 134217728) (7270611238426929 / 72057594037927936) DETECTED])"
    by (simp add: class_names_def thresholds_float64 compare_in_float64_def)
  from C4_detected_iff_over_threshold [OF len idx, of compare_in_float32] len idx r32 r64
  show ?thesis by (simp only: simp_thms)
qed


text \<open>
  Claim C5. For every diagnosed image (the file exists, the image loads, and inference returns
  a batch with a first row \<open>ps\<close>), what \<^verbatim>\<open>diagnose\<close> prints and calls is exactly: the line that
  names the patient, the loading of the image, the inference on the preprocessed array, the
  header of the report and one row per entry of \<open>ps\<close> in the order of the class indices, each
  with the class name, its probability, its cutoff and its DETECTED or Clear status. With at
  most one entry per class (five rows when there is one entry for each class) the rule and
  exactly one final diagnosis line follow, and \<^verbatim>\<open>diagnose\<close> returns: the line names the detected
  diseases if there are any, is the inconclusive one if nothing was detected, and the healthy
  one otherwise. With more entries than classes the report stops after the five rows with
  the \<^verbatim>\<open>KeyError\<close> of the sixth index.
\<close>

theorem C5_report_shape:
  assumes "path_exists env path"
    and "load_img env path = Inr img"
    and "arr = map (map (map (map (\<lambda>x. x / 255)))) [img_to_array env img]"
    and "predict env (model self) arr = Inr (ps # others)"
  shows "let names = [''Covid'', ''Normal'', ''Pneumonia'', ''Tuberculosis'', ''Tumor''];
             cutoffs = [float64_of (1241 / 10000), float64_of (1651 / 10000),
                        float64_of (2921 / 10000), float64_of (1766 / 10000),
                        float64_of (1009 / 10000)];
             row = (\<lambda>i. Print (Row (names ! i) (ps ! i) (cutoffs ! i)
                                 (if ps ! i > promote env (cutoffs ! i) then DETECTED else Clear)));
             start = [Print (Analyzing_Patient (basename env path)),
                      Call (Load_img path),
                      Call (Predict (model self) arr),
                      Print Detailed_Report];
             diseases = detected_diseases (promote env) ps;
             final = (if diseases \<noteq> [] then Signs_of (join '', '' diseases)
                      else if detected_names (promote env) ps = [] then Inconclusive
                      else Healthy_Lungs)
         in (length ps \<le> 5 \<longrightarrow>
               diagnose env self path =
                 (Inr self, start @ map row [0..<length ps] @ [Print Rule, Print final])) \<and>
            (5 < length ps \<longrightarrow>
               diagnose env self path =
                 (Inl (KeyError (Idx 5)), start @ map row [0..<5]))"
proof -
  let ?names = "[''Covid'', ''Normal'', ''Pneumonia'', ''Tuberculosis'', ''Tumor'']"
  let ?cutoffs = "[float64_of (1241 / 10000), float64_of (1651 / 10000),
                   float64_of (2921 / 10000), float64_of (1766 / 10000),
                   float64_of (1009 / 10000)]"
  let ?line = "\<lambda>qs i. Row (?names ! i) (qs ! i) (?cutoffs ! i)
                 (if qs ! i > promote env (?cutoffs ! i) then DETECTED else Clear)"
  let ?start = "[Print (Analyzing_Patient (basename env path)), Call (Load_img path),
                 Call (Predict (model self) arr), Print Detailed_Report]"
  have pre: "preprocess_image env path = (Inr arr, [Call (Load_img path)])"
    using assms(2,3) by (simp add: preprocess_image_def)
  have short: "diagnose env self path =
      (Inr self, ?start @ map (\<lambda>i. Print (?line ps i)) [0..<length ps]
         @ [Print Rule, Print (conclusion (detected_names (promote env) ps))])"
    if "length ps \<le> 5"
    using assms(1,4) pre
    by (simp add: diagnose_def safety_rules_ok [OF that] rows_upt [OF that] comp_def)
  have long: "diagnose env self path =
      (Inl (KeyError (Idx 5)), ?start @ map (\<lambda>i. Print (?line ps i)) [0..<5])"
    if "5 < length ps"
  proof -
    have l5: "length (take 5 ps) \<le> 5" by simp
    have "map (?line (take 5 ps)) [0..<length (take 5 ps)] = map (?line ps) [0..<5]"
      using that by (intro map_cong) auto
    with assms(1,4) pre show ?thesis
      by (simp add: diagnose_def safety_rules_long [OF that] rows_upt [OF l5] comp_def)
  qed
  from short long show ?thesis
    by (simp only: Let_def conclusion_detected) blast
qed


text \<open>Runs in the demonstration environment.\<close>

lemma safety_rules_demo:
  "safety_rules compare_in_float32 [1 / 2, 1 / 4, 0, 0, 0] =
     (Inr (),
      [Detailed_Report,
       Row ''Covid'' (1 / 2) (8942347420106857 / 72057594037927936) DETECTED,
       Row ''Normal'' (1 / 4) (5948354387830951 / 36028797018963968) DETECTED,
       Row ''Pneumonia'' 0 (657750725577461 / 2251799813685248) Clear,
       Row ''Tuberculosis'' 0 (6362685553549037 / 36028797018963968) Clear,
       Row ''Tumor'' 0 (7270611238426929 / 72057594037927936) Clear,
       Rule, Signs_of ''Covid''])"
  by (simp add: safety_rules_def class_names_def thresholds_float64 thresholds_float32
      conclusion_def)

lemma safety_rules_wide:
  "safety_rules compare_in_float32 [1 / 2, 1 / 4, 0, 0, 0, 1 / 2] =
     (Inl (KeyError (Idx 5)),
      [Detailed_Report,
       Row ''Covid'' (1 / 2) (8942347420106857 / 72057594037927936) DETECTED,
       Row ''Normal'' (1 / 4) (5948354387830951 / 36028797018963968) DETECTED,
       Row ''Pneumonia'' 0 (657750725577461 / 2251799813685248) Clear,
       Row ''Tuberculosis'' 0 (6362685553549037 / 36028797018963968) Clear,
       Row ''Tumor'' 0 (7270611238426929 / 72057594037927936) Clear])"
  by (simp add: safety_rules_def class_names_def thresholds_float64 thresholds_float32)

lemma demo_env_xray:
  "path_exists demo_env (str ''xray.png'')"
  "load_img demo_env (str ''xray.png'') = Inr ()"
  "img_to_array demo_env () = [[[255, 0, 255]]]"
  "predict demo_env 7 [[[[1, 0, 1]]]] = Inr [[1 / 2, 1 / 4, 0, 0, 0]]"
  "promote demo_env = compare_in_float32"
  "basename demo_env (str ''xray.png'') = str ''xray.png''"
  by (simp_all add: demo_env_def str_def)

lemma diagnose_demo_xray:
  "diagnose demo_env \<lparr>model = 7\<rparr> (str ''xray.png'') =
     (Inr \<lparr>model = 7\<rparr>,
      [Print (Analyzing_Patient (str ''xray.png'')),
       Call (Load_img (str ''xray.png'')),
       Call (Predict 7 [[[[1, 0, 1]]]]),
       Print Detailed_Report,
       Print (Row ''Covid'' (1 / 2) (8942347420106857 / 72057594037927936) DETECTED),
       Print (Row ''Normal'' (1 / 4) (5948354387830951 / 36028797018963968) DETECTED),
       Print (Row ''Pneumonia'' 0 (657750725577461 / 2251799813685248) Clear),
       Print (Row ''Tuberculosis'' 0 (6362685553549037 / 36028797018963968) Clear),
       Print (Row ''Tumor'' 0 (7270611238426929 / 72057594037927936) Clear),
       Print Rule,
       Print (Signs_of ''Covid'')])"
  by (simp add: diagnose_def preprocess_image_def demo_env_xray safety_rules_demo Let_def)

lemma wide_env_xray:
  "path_exists wide_env (str ''xray.png'')"
  "load_img wide_env (str ''xray.png'') = Inr ()"
  "img_to_array wide_env () = [[[255, 0, 255]]]"
  "predict wide_env 7 [[[[1, 0, 1]]]] = Inr [[1 / 2, 1 / 4, 0, 0, 0, 1 / 2]]"
  "promote wide_env = compare_in_float32"
  "basename wide_env (str ''xray.png'') = str ''xray.png''"
  by (simp_all add: wide_env_def demo_env_def str_def)

lemma diagnose_wide_xray:
  "diagnose wide_env \<lparr>model = 7\<rparr> (str ''xray.png'') =
     (Inl (KeyError (Idx 5)),
      [Print (Analyzing_Patient (str ''xray.png'')),
       Call (Load_img (str ''xray.png'')),
       Call (Predict 7 [[[[1, 0, 1]]]]),
       Print Detailed_Report,
       Print (Row ''Covid'' (1 / 2) (8942347420106857 / 72057594037927936) DETECTED),
       Print (Row ''Normal'' (1 / 4) (5948354387830951 / 36028797018963968) DETECTED),
       Print (Row ''Pneumonia'' 0 (657750725577461 / 2251799813685248) Clear),
       Print (Row ''Tuberculosis'' 0 (6362685553549037 / 36028797018963968) Clear),
       Print (Row ''Tumor'' 0 (7270611238426929 / 72057594037927936) Clear)])"
  by (simp add: diagnose_def preprocess_image_def wide_env_xray safety_rules_wide Let_def)

text \<open>
  The theorem in the demonstration environment on the file \<^verbatim>\<open>xray.png\<close>, with five and with
  six predictions.
\<close>

theorem C5_report_shape_witness:
  "path_exists demo_env (str ''xray.png'') \<and>
   load_img demo_env (str ''xray.png'') = Inr () \<and>
   predict demo_env 7 [[[[1, 0, 1]]]] = Inr [[1 / 2, 1 / 4, 0, 0, 0]] \<and>
   diagnose demo_env \<lparr>model = 7\<rparr> (str ''xray.png'') =
     (Inr \<lparr>model = 7\<rparr>,
      [Print (Analyzing_Patient (str ''xray.png'')),
       Call (Load_img (str ''xray.png'')),
       Call (Predict 7 [[[[1, 0, 1]]]]),
       Print Detailed_Report,
       Print (Row ''Covid'' (1 / 2) (8942347420106857 / 72057594037927936) DETECTED),
       Print (Row ''Normal'' (1 / 4) (5948354387830951 / 36028797018963968) DETECTED),
       Print (Row ''Pneumonia'' 0 (657750725577461 / 2251799813685248) Clear),
       Print (Row ''Tuberculosis'' 0 (6362685553549037 / 36028797018963968) Clear),
       Print (Row ''Tumor'' 0 (7270611238426929 / 72057594037927936) Clear),
       Print Rule,
       Print (Signs_of ''Covid'')]) \<and>
   predict wide_env 7 [[[[1, 0, 1]]]] = Inr [[1 / 2, 1 / 4, 0, 0, 0, 1 / 2]] \<and>
   diagnose wide_env \<lparr>model = 7\<rparr> (str ''xray.png'') =
     (Inl (KeyError (Idx 5)),
      [Print (Analyzing_Patient (str ''xray.png'')),
       Call (Load_img (str ''xray.png'')),
       Call (Predict 7 [[[[1, 0, 1]]]]),
       Print Detailed_Report,
       Print (Row ''Covid'' (1 / 2) (8942347420106857 / 72057594037927936) DETECTED),
       Print (Row ''Normal'' (1 / 4) (5948354387830951 / 36028797018963968) DETECTED),
       Print (Row ''Pneumonia'' 0 (657750725577461 / 2251799813685248) Clear),
       Print (Row ''Tuberculosis'' 0 (6362685553549037 / 36028797018963968) Clear),
       Print (Row ''Tumor'' 0 (7270611238426929 / 72057594037927936) Clear)])"
proof -
  have h3: "[[[[1, 0, 1]]]] = map (map (map (map (\<lambda>x. x / 255)))) [img_to_array demo_env ()]"
    by (simp add: demo_env_xray)
  have h4: "predict demo_env (model \<lparr>model = 7\<rparr>) [[[[1, 0, 1]]]] =
      Inr ([1 / 2, 1 / 4, 0, 0, 0] # [])"
    by (simp add: demo_env_xray)
  note t = C5_report_shape [OF demo_env_xray(1) demo_env_xray(2) h3 h4]
  from t demo_env_xray(1,2,4) wide_env_xray(4) diagnose_demo_xray diagnose_wide_xray
  show ?thesis by (simp only: simp_thms)
qed

subsection \<open>The final diagnosis line\<close>

text \<open>
  In the theorems of this subsection \<open>ps\<close> is a vector of predictions with at most one entry
  per class of the table, \<open>prom\<close> is NumPy's conversion of the cutoff for the comparison, a
  class exceeds its threshold when the comparison of line 71 holds for it, \<open>fst (safety_rules
  prom ps) = Inr ()\<close> says that the report was printed without an exception, and \<open>last (snd
  (safety_rules prom ps))\<close> is the final diagnosis line, the last line printed.
\<close>

text \<open>
  Claim C1, as the code has it. The claim says that Normal overrides disease: with Normal and
  a disease class both above their thresholds the final diagnosis would report health. The
  code decides the other way (lines 84--87): for every prediction vector in which Normal and
  at least one class that is not Normal exceed their thresholds, Normal is among the
  findings, and the final diagnosis line is \<^verbatim>\<open>Signs of\<close> the detected disease names joined by
  \<^verbatim>\<open>", "\<close>; Normal is not among the names reported, and the line does not report healthy
  lungs.
\<close>

theorem C1_disease_overrides_normal:
  assumes "length ps \<le> 5"
    and "\<exists>i. class_names i = Some ''Normal'' \<and> exceeds prom ps i"
    and "\<exists>i. class_names i \<noteq> Some ''Normal'' \<and> exceeds prom ps i"
  shows "''Normal'' \<in> set (detected_names prom ps) \<and>
         ''Normal'' \<notin> set (detected_diseases prom ps) \<and>
         detected_diseases prom ps \<noteq> [] \<and>
         fst (safety_rules prom ps) = Inr () \<and>
         last (snd (safety_rules prom ps)) = Signs_of (join '', '' (detected_diseases prom ps)) \<and>
         last (snd (safety_rules prom ps)) \<noteq> Healthy_Lungs"
proof -
  from assms(2) have n: "''Normal'' \<in> set (detected_names prom ps)"
    by (auto simp: set_detected_names)
  have nd: "''Normal'' \<notin> set (detected_diseases prom ps)"
    by (simp add: set_detected_diseases)
  from assms(1,3) have ne: "detected_diseases prom ps \<noteq> []"
    using detected_diseases_nonempty by blast
  then have "conclusion (detected_names prom ps) =
      Signs_of (join '', '' (detected_diseases prom ps))"
    by (simp add: conclusion_detected)
  with safety_rules_last [OF assms(1), of prom] n nd ne show ?thesis by simp
qed

text \<open>
  The theorem at the vector \<open>[0, 0.5, 0.5, 0, 0.5]\<close>, compared in single precision: Normal,
  Pneumonia and Tumor are detected and the line reads \<^verbatim>\<open>Signs of Pneumonia, Tumor\<close>.
\<close>

theorem C1_disease_overrides_normal_witness:
  "length [0, 1 / 2, 1 / 2, 0, 1 / 2 :: rat] \<le> 5 \<and>
   class_names 1 = Some ''Normal'' \<and> exceeds compare_in_float32 [0, 1 / 2, 1 / 2, 0, 1 / 2] 1 \<and>
   class_names 2 \<noteq> Some ''Normal'' \<and> exceeds compare_in_float32 [0, 1 / 2, 1 / 2, 0, 1 / 2] 2 \<and>
   detected_names compare_in_float32 [0, 1 / 2, 1 / 2, 0, 1 / 2] =
     [''Normal'', ''Pneumonia'', ''Tumor''] \<and>
   fst (safety_rules compare_in_float32 [0, 1 / 2, 1 / 2, 0, 1 / 2]) = Inr () \<and>
   last (snd (safety_rules compare_in_float32 [0, 1 / 2, 1 / 2, 0, 1 / 2])) =
     Signs_of ''Pneumonia, Tumor''"
proof -
  let ?ps = "[0, 1 / 2, 1 / 2, 0, 1 / 2 :: rat]"
  have h1: "class_names 1 = Some ''Normal'' \<and> exceeds compare_in_float32 ?ps 1"
    by (simp add: exceeds_def over_threshold_def class_names_def thresholds_float64
        thresholds_float32)
  have h2: "class_names 2 \<noteq> Some ''Normal'' \<and> exceeds compare_in_float32 ?ps 2"
    by (simp add: exceeds_def over_threshold_def class_names_def thresholds_float64
        thresholds_float32)
  have d: "detected_diseases compare_in_float32 ?ps = [''Pneumonia'', ''Tumor'']"
    by (simp add: detected_diseases_def exceeds_def over_threshold_def class_names_def
        thresholds_float64 thresholds_float32 upt_rec)
  have n: "detected_names compare_in_float32 ?ps = [''Normal'', ''Pneumonia'', ''Tumor'']"
    by (simp add: detected_names_def exceeds_def over_threshold_def class_names_def
        thresholds_float64 thresholds_float32 upt_rec)
  have len: "length ?ps \<le> 5" by simp
  from h1 have e1: "\<exists>i. class_names i = Some ''Normal'' \<and> exceeds compare_in_float32 ?ps i"
    by blast
  from h2 have e2: "\<exists>i. class_names i \<noteq> Some ''Normal'' \<and> exceeds compare_in_float32 ?ps i"
    by blast
  from C1_disease_overrides_normal [OF len e1 e2] h1 h2 d n show ?thesis by simp
qed

text \<open>
  The claim as it was stated fails at the vector \<open>[0.5, 0.5, 0, 0, 0]\<close>, whichever the precision
  of the comparison: Normal (index 1) and Covid (index 0) both exceed their thresholds, and
  the final diagnosis line is \<^verbatim>\<open>Signs of Covid\<close>, not the healthy one.
\<close>

theorem C1_normal_override_counterexample:
  "class_names 1 = Some ''Normal'' \<and> class_names 0 = Some ''Covid'' \<and>
   exceeds compare_in_float32 [1 / 2, 1 / 2, 0, 0, 0] 1 \<and>
   exceeds compare_in_float32 [1 / 2, 1 / 2, 0, 0, 0] 0 \<and>
   safety_rules compare_in_float32 [1 / 2, 1 / 2, 0, 0, 0] =
     (Inr (),
      [Detailed_Report,
       Row ''Covid'' (1 / 2) (8942347420106857 / 72057594037927936) DETECTED,
       Row ''Normal'' (1 / 2) (5948354387830951 / 36028797018963968) DETECTED,
       Row ''Pneumonia'' 0 (657750725577461 / 2251799813685248) Clear,
       Row ''Tuberculosis'' 0 (6362685553549037 / 36028797018963968) Clear,
       Row ''Tumor'' 0 (7270611238426929 / 72057594037927936) Clear,
       Rule, Signs_of ''Covid'']) \<and>
   last (snd (safety_rules compare_in_float32 [1 / 2, 1 / 2, 0, 0, 0])) \<noteq> Healthy_Lungs \<and>
   exceeds compare_in_float64 [1 / 2, 1 / 2, 0, 0, 0] 1 \<and>
   exceeds compare_in_float64 [1 / 2, 1 / 2, 0, 0, 0] 0 \<and>
   last (snd (safety_rules compare_in_float64 [1 / 2, 1 / 2, 0, 0, 0])) = Signs_of ''Covid''"
  by (simp add: exceeds_def over_threshold_def safety_rules_def class_names_def
      thresholds_float64 thresholds_float32 compare_in_float64_def conclusion_def)

text \<open>
  Claim C2. For every prediction vector in which at least one class that is not Normal
  exceeds its threshold, the final diagnosis line reports exactly the detected classes that
  are not Normal, their names joined by \<^verbatim>\<open>", "\<close>, whether or not Normal was detected as well
  (nothing is assumed about Normal).
\<close>

theorem C2_signs_regardless_of_normal:
  assumes "length ps \<le> 5"
    and "\<exists>i. class_names i \<noteq> Some ''Normal'' \<and> exceeds prom ps i"
  shows "fst (safety_rules prom ps) = Inr () \<and>
         last (snd (safety_rules prom ps)) = Signs_of (join '', '' (detected_diseases prom ps))"
proof -
  from assms have "detected_diseases prom ps \<noteq> []"
    using detected_diseases_nonempty by blast
  then have "conclusion (detected_names prom ps) =
      Signs_of (join '', '' (detected_diseases prom ps))"
    by (simp add: conclusion_detected)
  with safety_rules_last [OF assms(1), of prom] show ?thesis by simp
qed

text \<open>
  The theorem at \<open>[0.125, 0.5, 0, 0.5, 0.5]\<close>, where Normal is detected too, and at \<open>[0.5, 0,
  p, 0, 0]\<close> with \<open>p\<close> the cutoff of Pneumonia rounded to single precision, both compared in
  single precision: the lines read \<^verbatim>\<open>Signs of Covid, Tuberculosis, Tumor\<close> and \<^verbatim>\<open>Signs of
  Covid\<close>.
\<close>

theorem C2_signs_regardless_of_normal_witness:
  "length [1 / 8, 1 / 2, 0, 1 / 2, 1 / 2 :: rat] \<le> 5 \<and>
   class_names 3 \<noteq> Some ''Normal'' \<and>
   exceeds compare_in_float32 [1 / 8, 1 / 2, 0, 1 / 2, 1 / 2] 3 \<and>
   exceeds compare_in_float32 [1 / 8, 1 / 2, 0, 1 / 2, 1 / 2] 1 \<and>
   fst (safety_rules compare_in_float32 [1 / 8, 1 / 2, 0, 1 / 2, 1 / 2]) = Inr () \<and>
   last (snd (safety_rules compare_in_float32 [1 / 8, 1 / 2, 0, 1 / 2, 1 / 2])) =
     Signs_of ''Covid, Tuberculosis, Tumor'' \<and>
   exceeds compare_in_float32 [1 / 2, 0, 4900625 / 16777216, 0, 0] 0 \<and>
   \<not> exceeds compare_in_float32 [1 / 2, 0, 4900625 / 16777216, 0, 0] 2 \<and>
   last (snd (safety_rules compare_in_float32 [1 / 2, 0, 4900625 / 16777216, 0, 0])) =
     Signs_of ''Covid''"
proof -
  let ?ps = "[1 / 8, 1 / 2, 0, 1 / 2, 1 / 2 :: rat]"
  let ?qs = "[1 / 2, 0, 4900625 / 16777216, 0, 0 :: rat]"
  have h: "class_names 3 \<noteq> Some ''Normal'' \<and> exceeds compare_in_float32 ?ps 3"
    by (simp add: exceeds_def over_threshold_def class_names_def thresholds_float64
        thresholds_float32)
  have n: "exceeds compare_in_float32 ?ps 1"
    by (simp add: exceeds_def over_threshold_def class_names_def thresholds_float64
        thresholds_float32)
  have d: "detected_diseases compare_in_float32 ?ps = [''Covid'', ''Tuberculosis'', ''Tumor'']"
    by (simp add: detected_diseases_def exceeds_def over_threshold_def class_names_def
        thresholds_float64 thresholds_float32 upt_rec)
  have q: "class_names 0 \<noteq> Some ''Normal'' \<and> exceeds compare_in_float32 ?qs 0"
    and q2: "\<not> exceeds compare_in_float32 ?qs 2"
    by (simp_all add: exceeds_def over_threshold_def class_names_def thresholds_float64
        thresholds_float32)
  have dq: "detected_diseases compare_in_float32 ?qs = [''Covid'']"
    by (simp add: detected_diseases_def exceeds_def over_threshold_def class_names_def
        thresholds_float64 thresholds_float32 upt_rec)
  have len: "length ?ps \<le> 5" and lenq: "length ?qs \<le> 5" by simp_all
  from h have e: "\<exists>i. class_names i \<noteq> Some ''Normal'' \<and> exceeds compare_in_float32 ?ps i"
    by blast
  from q have eq: "\<exists>i. class_names i \<noteq> Some ''Normal'' \<and> exceeds compare_in_float32 ?qs i"
    by blast
  from C2_signs_regardless_of_normal [OF len e] C2_signs_regardless_of_normal [OF lenq eq]
    h n d q q2 dq
  show ?thesis by simp
qed

text \<open>
  Claim C3. For every prediction vector in which Normal is the only class that exceeds its
  threshold, the findings are \<^verbatim>\<open>["Normal"]\<close> and the final diagnosis line reports healthy
  lungs.
\<close>

theorem C3_lone_normal_healthy:
  assumes "length ps \<le> 5"
    and "\<forall>i. exceeds prom ps i \<longleftrightarrow> class_names i = Some ''Normal''"
  shows "fst (report_loop prom (enumerate 0 ps) []) = Inr [''Normal''] \<and>
         fst (safety_rules prom ps) = Inr () \<and>
         last (snd (safety_rules prom ps)) = Healthy_Lungs"
proof -
  have d: "detected_names prom ps = [''Normal'']"
    using assms(2) by (rule detected_names_only_normal)
  have "conclusion [''Normal''] = Healthy_Lungs"
    by (simp add: conclusion_def)
  with d findings_enumerate [OF assms(1), of prom] safety_rules_last [OF assms(1), of prom]
  show ?thesis by simp
qed

text \<open>
  The theorem at \<open>[0, 0.5, 0, 0, p]\<close> with \<open>p\<close> the cutoff of Tumor rounded to single
  precision, compared in single precision, with all the lines printed.
\<close>

theorem C3_lone_normal_healthy_witness:
  "length [0, 1 / 2, 0, 0, 13542569 / 134217728 :: rat] \<le> 5 \<and>
   exceeds compare_in_float32 [0, 1 / 2, 0, 0, 13542569 / 134217728] 1 \<and>
   \<not> exceeds compare_in_float32 [0, 1 / 2, 0, 0, 13542569 / 134217728] 4 \<and>
   fst (report_loop compare_in_float32 (enumerate 0 [0, 1 / 2, 0, 0, 13542569 / 134217728]) []) =
     Inr [''Normal''] \<and>
   safety_rules compare_in_float32 [0, 1 / 2, 0, 0, 13542569 / 134217728] =
     (Inr (),
      [Detailed_Report,
       Row ''Covid'' 0 (8942347420106857 / 72057594037927936) Clear,
       Row ''Normal'' (1 / 2) (5948354387830951 / 36028797018963968) DETECTED,
       Row ''Pneumonia'' 0 (657750725577461 / 2251799813685248) Clear,
       Row ''Tuberculosis'' 0 (6362685553549037 / 36028797018963968) Clear,
       Row ''Tumor'' (13542569 / 134217728) (7270611238426929 / 72057594037927936) Clear,
       Rule, Healthy_Lungs])"
proof -
  let ?ps = "[0, 1 / 2, 0, 0, 13542569 / 134217728 :: rat]"
  have e: "\<not> exceeds compare_in_float32 ?ps 0" "exceeds compare_in_float32 ?ps (Suc 0)"
    "\<not> exceeds compare_in_float32 ?ps 2" "\<not> exceeds compare_in_float32 ?ps 3"
    "\<not> exceeds compare_in_float32 ?ps 4"
    by (simp_all add: exceeds_def over_threshold_def class_names_def thresholds_float64
        thresholds_float32)
  have "exceeds compare_in_float32 ?ps i \<longleftrightarrow> class_names i = Some ''Normal''" for i
  proof (cases "i < 5")
    case True
    then have "i = 0 \<or> i = Suc 0 \<or> i = 2 \<or> i = 3 \<or> i = 4" by arith
    then show ?thesis
      using e by (elim disjE) (simp_all add: class_names_def)
  next
    case False
    then show ?thesis by (simp add: exceeds_def class_names_Normal)
  qed
  then have h: "\<forall>i. exceeds compare_in_float32 ?ps i \<longleftrightarrow> class_names i = Some ''Normal''"
    by blast
  have len: "length ?ps \<le> 5" by simp
  have run: "safety_rules compare_in_float32 ?ps =
     (Inr (),
      [Detailed_Report,
       Row ''Covid'' 0 (8942347420106857 / 72057594037927936) Clear,
       Row ''Normal'' (1 / 2) (5948354387830951 / 36028797018963968) DETECTED,
       Row ''Pneumonia'' 0 (657750725577461 / 2251799813685248) Clear,
       Row ''Tuberculosis'' 0 (6362685553549037 / 36028797018963968) Clear,
       Row ''Tumor'' (13542569 / 134217728) (7270611238426929 / 72057594037927936) Clear,
       Rule, Healthy_Lungs])"
    by (simp add: safety_rules_def class_names_def thresholds_float64 thresholds_float32
        conclusion_def)
  from C3_lone_normal_healthy [OF len h] e run show ?thesis
    by simp
qed

text \<open>
  Claim C10. For every prediction vector in which no class exceeds its threshold (the list of
  findings is empty), the final diagnosis line is the inconclusive one, not the healthy one
  and not a disease. And whenever the final diagnosis line reports diseases, it reports the
  detected classes that are not Normal, which is not the empty list, their names joined in
  ascending order of class index: a subsequence of Covid, Pneumonia, Tuberculosis, Tumor.
\<close>

theorem C10_inconclusive_and_order:
  assumes "length ps \<le> 5"
  shows "((\<forall>i. \<not> exceeds prom ps i) \<longrightarrow>
            fst (safety_rules prom ps) = Inr () \<and>
            last (snd (safety_rules prom ps)) = Inconclusive) \<and>
         (\<forall>s. last (snd (safety_rules prom ps)) = Signs_of s \<longrightarrow>
            s = join '', '' (detected_diseases prom ps) \<and> detected_diseases prom ps \<noteq> [] \<and>
            subseq (detected_diseases prom ps)
              [''Covid'', ''Pneumonia'', ''Tuberculosis'', ''Tumor''])"
proof (intro conjI impI allI)
  assume "\<forall>i. \<not> exceeds prom ps i"
  then have "conclusion (detected_names prom ps) = Inconclusive"
    by (simp add: detected_names_none conclusion_inconclusive)
  with safety_rules_last [OF assms, of prom]
  show "fst (safety_rules prom ps) = Inr ()" "last (snd (safety_rules prom ps)) = Inconclusive"
    by simp_all
next
  fix s
  assume "last (snd (safety_rules prom ps)) = Signs_of s"
  with safety_rules_last [OF assms, of prom]
  have "conclusion (detected_names prom ps) = Signs_of s"
    by simp
  from conclusion_signs_only [OF this]
  show "s = join '', '' (detected_diseases prom ps)" "detected_diseases prom ps \<noteq> []"
    by (simp_all add: real_diseases_eq)
  show "subseq (detected_diseases prom ps)
      [''Covid'', ''Pneumonia'', ''Tuberculosis'', ''Tumor'']"
    using assms by (rule detected_diseases_subseq)
qed

text \<open>
  The theorem, compared in single precision, at \<open>[0.0625, 0.0625, p, 0.0625, q]\<close> with \<open>p\<close> and
  \<open>q\<close> the cutoffs of Pneumonia and Tumor rounded to single precision, where no class exceeds
  its threshold, and at \<open>[0.5, 0, p, 0.5, 0.5]\<close>, where three diseases are reported.
\<close>

theorem C10_inconclusive_and_order_witness:
  "length [1 / 16, 1 / 16, 4900625 / 16777216, 1 / 16, 13542569 / 134217728 :: rat] \<le> 5 \<and>
   \<not> exceeds compare_in_float32
        [1 / 16, 1 / 16, 4900625 / 16777216, 1 / 16, 13542569 / 134217728] 0 \<and>
   \<not> exceeds compare_in_float32
        [1 / 16, 1 / 16, 4900625 / 16777216, 1 / 16, 13542569 / 134217728] 1 \<and>
   \<not> exceeds compare_in_float32
        [1 / 16, 1 / 16, 4900625 / 16777216, 1 / 16, 13542569 / 134217728] 2 \<and>
   \<not> exceeds compare_in_float32
        [1 / 16, 1 / 16, 4900625 / 16777216, 1 / 16, 13542569 / 134217728] 3 \<and>
   \<not> exceeds compare_in_float32
        [1 / 16, 1 / 16, 4900625 / 16777216, 1 / 16, 13542569 / 134217728] 4 \<and>
   last (snd (safety_rules compare_in_float32
        [1 / 16, 1 / 16, 4900625 / 16777216, 1 / 16, 13542569 / 134217728])) = Inconclusive \<and>
   length [1 / 2, 0, 4900625 / 16777216, 1 / 2, 1 / 2 :: rat] \<le> 5 \<and>
   last (snd (safety_rules compare_in_float32 [1 / 2, 0, 4900625 / 16777216, 1 / 2, 1 / 2])) =
     Signs_of ''Covid, Tuberculosis, Tumor'' \<and>
   detected_diseases compare_in_float32 [1 / 2, 0, 4900625 / 16777216, 1 / 2, 1 / 2] =
     [''Covid'', ''Tuberculosis'', ''Tumor''] \<and>
   subseq [''Covid'', ''Tuberculosis'', ''Tumor'']
     [''Covid'', ''Pneumonia'', ''Tuberculosis'', ''Tumor'']"
proof -
  let ?low = "[1 / 16, 1 / 16, 4900625 / 16777216, 1 / 16, 13542569 / 134217728 :: rat]"
  let ?ill = "[1 / 2, 0, 4900625 / 16777216, 1 / 2, 1 / 2 :: rat]"
  have e: "\<not> exceeds compare_in_float32 ?low 0" "\<not> exceeds compare_in_float32 ?low (Suc 0)"
    "\<not> exceeds compare_in_float32 ?low 2" "\<not> exceeds compare_in_float32 ?low 3"
    "\<not> exceeds compare_in_float32 ?low 4"
    by (simp_all add: exceeds_def over_threshold_def class_names_def thresholds_float64
        thresholds_float32)
  have "\<not> exceeds compare_in_float32 ?low i" for i
  proof (cases "i < 5")
    case True
    then have "i = 0 \<or> i = Suc 0 \<or> i = 2 \<or> i = 3 \<or> i = 4" by arith
    then show ?thesis
      using e by (elim disjE) simp_all
  next
    case False
    then show ?thesis by (simp add: exceeds_def)
  qed
  then have none: "\<forall>i. \<not> exceeds compare_in_float32 ?low i" by blast
  have l1: "length ?low \<le> 5" and l2: "length ?ill \<le> 5" by simp_all
  have sg: "last (snd (safety_rules compare_in_float32 ?ill)) =
      Signs_of ''Covid, Tuberculosis, Tumor''"
    by (simp add: safety_rules_def class_names_def thresholds_float64 thresholds_float32
        conclusion_def)
  have d: "detected_diseases compare_in_float32 ?ill = [''Covid'', ''Tuberculosis'', ''Tumor'']"
    by (simp add: detected_diseases_def exceeds_def over_threshold_def class_names_def
        thresholds_float64 thresholds_float32 upt_rec)
  from C10_inconclusive_and_order [OF l1] none
  have a: "last (snd (safety_rules compare_in_float32 ?low)) = Inconclusive" by blast
  from C10_inconclusive_and_order [OF l2] sg
  have b: "subseq (detected_diseases compare_in_float32 ?ill)
      [''Covid'', ''Pneumonia'', ''Tuberculosis'', ''Tumor'']"
    by blast
  from a b e sg d show ?thesis by simp
qed

subsection \<open>Auxiliary facts about \<open>diagnose\<close> and the command loop\<close>

lemma diagnose_same_doctor:
  "diagnose env self path = (Inr self', evs) \<Longrightarrow> self' = self"
  by (auto simp: diagnose_def Let_def split: if_splits prod.splits sum.splits list.splits)

lemma diagnose_no_load_model:
  "ev \<in> set (snd (diagnose env self path)) \<Longrightarrow> \<not> is_load_model ev"
  by (auto simp: diagnose_def preprocess_image_def Let_def
      split: if_splits prod.splits sum.splits list.splits)

lemma report_loop_rows:
  "l \<in> set (snd (report_loop prom xs acc)) \<Longrightarrow>
     \<exists>name prob threshold status. l = Row name prob threshold status"
proof (induction prom xs acc rule: report_loop.induct)
  case (1 prom findings)
  then show ?case by simp
next
  case (2 prom idx prob rest findings)
  then show ?case
    by (auto simp: Let_def split: option.splits prod.splits if_splits)
qed

lemma safety_rules_no_critical: "Critical_Error e \<notin> set (snd (safety_rules prom ps))"
proof
  assume a: "Critical_Error e \<in> set (snd (safety_rules prom ps))"
  obtain r ls where rl: "report_loop prom (enumerate 0 ps) [] = (r, ls)"
    by (cases "report_loop prom (enumerate 0 ps) []")
  have rows: "Critical_Error e \<notin> set ls"
    using report_loop_rows [of "Critical_Error e" prom "enumerate 0 ps" "[]"] rl by auto
  have "conclusion fs \<noteq> Critical_Error e" for fs
    by (simp add: conclusion_def Let_def)
  with a rl rows show False
    by (cases r) (auto simp: safety_rules_def)
qed

lemma safety_rules_no_critical':
  "safety_rules prom ps = (r, ls) \<Longrightarrow> Critical_Error e \<in> set ls \<Longrightarrow> False"
  using safety_rules_no_critical [of e prom ps] by simp

lemma diagnose_no_critical:
  "Print (Critical_Error e) \<notin> set (snd (diagnose env self path))"
  by (auto simp: diagnose_def preprocess_image_def Let_def
      split: if_splits prod.splits sum.splits list.splits
      dest: safety_rules_no_critical')

lemma diagnose_predict_only:
  assumes "Call (Predict m a) \<in> set (snd (diagnose env self path))"
  shows "m = model self \<and> path_exists env path \<and>
         (\<exists>img. load_img env path = Inr img \<and>
                a = map (map (map (map (\<lambda>x. x / 255)))) [img_to_array env img])"
  using assms
  by (auto simp: diagnose_def preprocess_image_def Let_def
      split: if_splits prod.splits sum.splits list.splits)

lemma command_loop_same_doctor:
  "command_loop env doctor inputs = (Inr doctor', evs) \<Longrightarrow> doctor' = doctor"
proof (induction inputs arbitrary: doctor evs)
  case Nil
  then show ?case by simp
next
  case (Cons l rest)
  then show ?case
    by (auto simp: Let_def split: if_splits prod.splits sum.splits dest: diagnose_same_doctor)
qed

lemma command_loop_events:
  "ev \<in> set (snd (command_loop env doctor inputs)) \<Longrightarrow>
     ev = Print Prompt \<or> (\<exists>path. ev \<in> set (snd (diagnose env doctor path)))"
proof (induction inputs)
  case Nil
  then show ?case by auto
next
  case (Cons l rest)
  show ?case
  proof (cases "is_exit (clean l)")
    case True
    with Cons.prems show ?thesis by auto
  next
    case False
    show ?thesis
    proof (cases "clean l = []")
      case True
      with False Cons.prems
      have "ev = Print Prompt \<or> ev \<in> set (snd (command_loop env doctor rest))"
        by (auto simp: Let_def split: prod.splits)
      then show ?thesis using Cons.IH by auto
    next
      case nonempty: False
      obtain r evs where d: "diagnose env doctor (clean l) = (r, evs)"
        by (cases "diagnose env doctor (clean l)")
      show ?thesis
      proof (cases r)
        case (Inl e)
        with d False nonempty Cons.prems
        have "ev = Print Prompt \<or> ev \<in> set (snd (diagnose env doctor (clean l)))"
          by (auto simp: Let_def)
        then show ?thesis by auto
      next
        case (Inr doctor')
        with d have "doctor' = doctor" by (auto dest: diagnose_same_doctor)
        with Inr d False nonempty Cons.prems
        have "ev = Print Prompt \<or> ev \<in> set (snd (diagnose env doctor (clean l)))
              \<or> ev \<in> set (snd (command_loop env doctor rest))"
          by (auto simp: Let_def split: prod.splits)
        then show ?thesis using Cons.IH by auto
      qed
    qed
  qed
qed

lemma command_loop_no_load_model:
  "ev \<in> set (snd (command_loop env doctor inputs)) \<Longrightarrow> \<not> is_load_model ev"
  using command_loop_events [of ev env doctor inputs] diagnose_no_load_model [of ev env doctor]
  by auto

lemma command_loop_no_critical:
  "Print (Critical_Error e) \<notin> set (snd (command_loop env doctor inputs))"
  using command_loop_events [of "Print (Critical_Error e)" env doctor inputs]
    diagnose_no_critical [of e env doctor]
  by auto

lemma command_loop_predict_model:
  "Call (Predict m a) \<in> set (snd (command_loop env doctor inputs)) \<Longrightarrow> m = model doctor"
  using command_loop_events [of "Call (Predict m a)" env doctor inputs]
    diagnose_predict_only [of m a env doctor]
  by auto

lemma init_events:
  "LungDoctor_init env = (r, evs) \<Longrightarrow>
     length (filter is_load_model evs) \<le> 1 \<and> (\<forall>e. Print (Critical_Error e) \<notin> set evs)"
  by (auto simp: LungDoctor_init_def split: if_splits sum.splits)

lemma filter_no_load_model:
  "\<forall>ev \<in> set evs. \<not> is_load_model ev \<Longrightarrow> filter is_load_model evs = []"
  by (simp add: filter_empty_conv)

lemma command_loop_filter_load:
  "filter is_load_model (snd (command_loop env doctor inputs)) = []"
  by (rule filter_no_load_model) (auto dest: command_loop_no_load_model)

text \<open>The loop ends with \<^verbatim>\<open>break\<close> only on an exit command.\<close>

lemma command_loop_raises:
  "\<forall>l \<in> set inputs. \<not> is_exit (clean l) \<Longrightarrow>
     \<exists>e evs. command_loop env doctor inputs = (Inl e, evs)"
proof (induction inputs arbitrary: doctor)
  case Nil
  show ?case by simp
next
  case (Cons l rest)
  from Cons.prems have ne: "\<not> is_exit (clean l)" and rest: "\<forall>l \<in> set rest. \<not> is_exit (clean l)"
    by simp_all
  show ?case
  proof (cases "clean l = []")
    case True
    from Cons.IH [OF rest, of doctor] obtain e evs where
      "command_loop env doctor rest = (Inl e, evs)" by blast
    with True ne show ?thesis by (simp add: Let_def)
  next
    case False
    obtain r evs where d: "diagnose env doctor (clean l) = (r, evs)"
      by (cases "diagnose env doctor (clean l)")
    show ?thesis
    proof (cases r)
      case (Inl e)
      with d False ne show ?thesis by (simp add: Let_def)
    next
      case (Inr doctor')
      from Cons.IH [OF rest, of doctor'] obtain e evs' where
        "command_loop env doctor' rest = (Inl e, evs')" by blast
      with Inr d False ne show ?thesis by (simp add: Let_def)
    qed
  qed
qed

text \<open>Cleaning and the exit test on the lines of the demonstrations.\<close>

lemma clean_demo:
  "clean (str ''xray.png'') = str ''xray.png''"
  "clean (str ''  xray.png '') = str ''xray.png''"
  "clean (str ''bad.png'') = str ''bad.png''"
  "clean (str '' nofile.png'') = str ''nofile.png''"
  "clean (str ''EXIT'') = str ''EXIT''"
  "clean (str ''exit'') = str ''exit''"
  "clean (str ''quit'') = str ''quit''"
  by (simp_all add: clean_def strip_def remove_char_def is_space_def str_def)

lemma is_exit_demo:
  "\<not> is_exit (str ''xray.png'')"
  "\<not> is_exit (str ''bad.png'')"
  "\<not> is_exit (str ''nofile.png'')"
  "is_exit (str ''EXIT'')"
  "is_exit (str ''exit'')"
  "is_exit (str ''quit'')"
  by (simp_all add: is_exit_def lower_def lower_char_def str_def)

lemma str_nonempty:
  "str ''xray.png'' \<noteq> []" "str ''bad.png'' \<noteq> []" "str ''nofile.png'' \<noteq> []"
  by (simp_all add: str_def)

lemma init_demo:
  "path_exists demo_env MODEL_PATH"
  "load_model demo_env MODEL_PATH = Inr 7"
  "LungDoctor_init demo_env =
     (Inr \<lparr>model = 7\<rparr>,
      [Print Loading_AI_Brain, Call (Load_model MODEL_PATH), Print AI_System_Online])"
  by (simp_all add: LungDoctor_init_def demo_env_def)

text \<open>The empty path is not an exit command.\<close>

lemma is_exit_Nil: "\<not> is_exit []"
  by (simp add: is_exit_def lower_def str_def)

subsection \<open>The program as a whole\<close>

text \<open>
  Claim C6. The model is loaded exactly once, at the construction of the \<^verbatim>\<open>LungDoctor\<close>, before
  the command loop starts, and no iteration of the loop reloads it or changes it. In every run
  the trace holds at most one call of \<^verbatim>\<open>load_model\<close>, and exactly one when the model file
  exists. When the model file exists and loads as
  \<open>m\<close>, the trace starts with the loading message, the one call of \<^verbatim>\<open>load_model\<close> and the
  online message; what follows is the trace of the command loop run with the doctor
  \<open>\<lparr>model = m\<rparr>\<close> (and the critical-error line if the loop raised), it holds no call of
  \<^verbatim>\<open>load_model\<close>, and every inference in it is run on \<open>m\<close>. Every call of \<^verbatim>\<open>diagnose\<close> that
  returns leaves the doctor, and so \<^verbatim>\<open>self.model\<close>, as it was, for every path, and so does the
  command loop.
\<close>

theorem C6_model_loaded_once:
  "length (filter is_load_model (main env inputs)) \<le> 1 \<and>
   (path_exists env MODEL_PATH \<longrightarrow> length (filter is_load_model (main env inputs)) = 1) \<and>
   (\<forall>m. path_exists env MODEL_PATH \<and> load_model env MODEL_PATH = Inr m \<longrightarrow>
      (\<exists>evs. main env inputs =
                [Print Loading_AI_Brain, Call (Load_model MODEL_PATH), Print AI_System_Online] @ evs \<and>
             evs = snd (command_loop env \<lparr>model = m\<rparr> inputs) @
                   (case fst (command_loop env \<lparr>model = m\<rparr> inputs) of
                      Inl e \<Rightarrow> [Print (Critical_Error e)] | Inr d \<Rightarrow> []) \<and>
             (\<forall>ev \<in> set evs. \<not> is_load_model ev) \<and>
             (\<forall>m' a. Call (Predict m' a) \<in> set evs \<longrightarrow> m' = m))) \<and>
   (\<forall>self path self' evs.
      diagnose env self path = (Inr self', evs) \<longrightarrow>
        self' = self \<and> (\<forall>ev \<in> set evs. \<not> is_load_model ev)) \<and>
   (\<forall>doctor doctor' evs. command_loop env doctor inputs = (Inr doctor', evs) \<longrightarrow> doctor' = doctor)"
proof (intro conjI allI impI)
  show "length (filter is_load_model (main env inputs)) \<le> 1"
  proof (cases "LungDoctor_init env")
    case (Pair r evs0)
    note init = init_events [OF Pair]
    show ?thesis
    proof (cases r)
      case (Inl e)
      with Pair init show ?thesis by (simp add: main_def)
    next
      case (Inr d)
      obtain r' evs' where loop: "command_loop env d inputs = (r', evs')"
        by (cases "command_loop env d inputs")
      then have "filter is_load_model evs' = []"
        using command_loop_filter_load [of env d inputs] by simp
      with Pair Inr loop init show ?thesis
        by (cases r') (simp_all add: main_def)
    qed
  qed
next
  assume ex: "path_exists env MODEL_PATH"
  show "length (filter is_load_model (main env inputs)) = 1"
  proof (cases "load_model env MODEL_PATH")
    case (Inl e)
    with ex show ?thesis by (simp add: main_def LungDoctor_init_def)
  next
    case (Inr m)
    with ex have init: "LungDoctor_init env =
        (Inr \<lparr>model = m\<rparr>,
         [Print Loading_AI_Brain, Call (Load_model MODEL_PATH), Print AI_System_Online])"
      by (simp add: LungDoctor_init_def)
    obtain r' evs' where loop: "command_loop env \<lparr>model = m\<rparr> inputs = (r', evs')"
      by (cases "command_loop env \<lparr>model = m\<rparr> inputs")
    then have "filter is_load_model evs' = []"
      using command_loop_filter_load [of env "\<lparr>model = m\<rparr>" inputs] by simp
    with init loop show ?thesis
      by (cases r') (simp_all add: main_def)
  qed
next
  fix m
  assume a: "path_exists env MODEL_PATH \<and> load_model env MODEL_PATH = Inr m"
  let ?d = "\<lparr>model = m\<rparr>"
  let ?evs = "snd (command_loop env ?d inputs) @
       (case fst (command_loop env ?d inputs) of Inl e \<Rightarrow> [Print (Critical_Error e)] | Inr d \<Rightarrow> [])"
  from a have init: "LungDoctor_init env =
      (Inr ?d, [Print Loading_AI_Brain, Call (Load_model MODEL_PATH), Print AI_System_Online])"
    by (simp add: LungDoctor_init_def)
  have m: "main env inputs =
      [Print Loading_AI_Brain, Call (Load_model MODEL_PATH), Print AI_System_Online] @ ?evs"
    using init by (simp add: main_def split: prod.splits sum.splits)
  have nl: "\<forall>ev \<in> set ?evs. \<not> is_load_model ev"
    by (auto dest: command_loop_no_load_model split: sum.splits)
  have pm: "\<forall>m' a. Call (Predict m' a) \<in> set ?evs \<longrightarrow> m' = m"
    by (auto dest: command_loop_predict_model split: sum.splits)
  from m nl pm
  show "\<exists>evs. main env inputs =
                [Print Loading_AI_Brain, Call (Load_model MODEL_PATH), Print AI_System_Online] @ evs \<and>
             evs = snd (command_loop env \<lparr>model = m\<rparr> inputs) @
                   (case fst (command_loop env \<lparr>model = m\<rparr> inputs) of
                      Inl e \<Rightarrow> [Print (Critical_Error e)] | Inr d \<Rightarrow> []) \<and>
             (\<forall>ev \<in> set evs. \<not> is_load_model ev) \<and>
             (\<forall>m' a. Call (Predict m' a) \<in> set evs \<longrightarrow> m' = m)"
    by blast
next
  fix self :: "'a LungDoctor" and path self' evs
  assume d: "diagnose env self path = (Inr self', evs)"
  then show "self' = self" by (rule diagnose_same_doctor)
  from d show "\<forall>ev \<in> set evs. \<not> is_load_model ev"
    using diagnose_no_load_model [of _ env self path] by auto
next
  fix doctor :: "'a LungDoctor" and doctor' evs
  assume "command_loop env doctor inputs = (Inr doctor', evs)"
  then show "doctor' = doctor" by (rule command_loop_same_doctor)
qed

text \<open>
  Claim C7. One iteration of the loop for a line whose cleaned path is neither empty nor an
  exit command runs in sequence: the prompt reads the path, the image is loaded and
  preprocessed, inference is called on the preprocessed array, the thresholds are applied to
  the first row that inference returned, the lines are printed, and the loop goes on to the
  rest of the input with the same doctor. Inference is called only with the doctor's model
  on the array preprocessed from the image of this path, and a row of the report is printed
  only by the safety rules applied to what inference returned for this path. The iteration
  keeps nothing from the iterations before it: its trace is a function of the environment,
  the doctor and the path.
\<close>

theorem C7_sequential_iteration:
  assumes "clean l = path" and "path \<noteq> []" and "\<not> is_exit path"
  shows "(\<forall>img arr predictions others ls.
            path_exists env path \<and> load_img env path = Inr img \<and>
            arr = map (map (map (map (\<lambda>x. x / 255)))) [img_to_array env img] \<and>
            predict env (model doctor) arr = Inr (predictions # others) \<and>
            safety_rules (promote env) predictions = (Inr (), ls) \<longrightarrow>
            command_loop env doctor (l # rest) =
              (fst (command_loop env doctor rest),
               [Print Prompt,
                Print (Analyzing_Patient (basename env path)),
                Call (Load_img path),
                Call (Predict (model doctor) arr)]
               @ map Print ls
               @ snd (command_loop env doctor rest))) \<and>
         (\<forall>m a. Call (Predict m a) \<in> set (snd (diagnose env doctor path)) \<longrightarrow>
            m = model doctor \<and> path_exists env path \<and>
            (\<exists>img. load_img env path = Inr img \<and>
                   a = map (map (map (map (\<lambda>x. x / 255)))) [img_to_array env img])) \<and>
         (\<forall>name prob threshold status.
            Print (Row name prob threshold status) \<in> set (snd (diagnose env doctor path)) \<longrightarrow>
            (\<exists>img predictions others.
               load_img env path = Inr img \<and>
               predict env (model doctor)
                 (map (map (map (map (\<lambda>x. x / 255)))) [img_to_array env img]) =
                 Inr (predictions # others) \<and>
               Row name prob threshold status \<in> set (snd (safety_rules (promote env) predictions))))"
proof (intro conjI allI impI)
  fix img arr predictions others ls
  assume a: "path_exists env path \<and> load_img env path = Inr img \<and>
            arr = map (map (map (map (\<lambda>x. x / 255)))) [img_to_array env img] \<and>
            predict env (model doctor) arr = Inr (predictions # others) \<and>
            safety_rules (promote env) predictions = (Inr (), ls)"
  then have "diagnose env doctor path =
      (Inr doctor,
       [Print (Analyzing_Patient (basename env path)), Call (Load_img path),
        Call (Predict (model doctor) arr)] @ map Print ls)"
    by (clarsimp simp add: diagnose_def preprocess_image_def)
  with assms show "command_loop env doctor (l # rest) =
              (fst (command_loop env doctor rest),
               [Print Prompt,
                Print (Analyzing_Patient (basename env path)),
                Call (Load_img path),
                Call (Predict (model doctor) arr)]
               @ map Print ls
               @ snd (command_loop env doctor rest))"
    by (simp add: split_beta)
next
  fix m a
  assume "Call (Predict m a) \<in> set (snd (diagnose env doctor path))"
  from diagnose_predict_only [OF this]
  show "m = model doctor" and "path_exists env path"
    and "\<exists>img. load_img env path = Inr img \<and>
           a = map (map (map (map (\<lambda>x. x / 255)))) [img_to_array env img]"
    by simp_all
next
  fix name prob threshold status
  assume "Print (Row name prob threshold status) \<in> set (snd (diagnose env doctor path))"
  then show "\<exists>img predictions others.
               load_img env path = Inr img \<and>
               predict env (model doctor)
                 (map (map (map (map (\<lambda>x. x / 255)))) [img_to_array env img]) =
                 Inr (predictions # others) \<and>
               Row name prob threshold status \<in> set (snd (safety_rules (promote env) predictions))"
    by (auto simp: diagnose_def preprocess_image_def Let_def
        split: if_splits prod.splits sum.splits list.splits)
qed

text \<open>
  Claim C9. For every path that does not name an existing file, \<^verbatim>\<open>diagnose\<close> prints the
  file-not-found line and returns: the trace holds nothing else (no loading of an image, no
  inference, no report, no diagnosis line), the doctor is unchanged, and the command loop
  goes on to the next input.
\<close>

theorem C9_missing_file:
  assumes "\<not> path_exists env path"
  shows "diagnose env self path = (Inr self, [Print (File_not_found path)]) \<and>
         (\<forall>l rest. clean l = path \<and> path \<noteq> [] \<and> \<not> is_exit path \<longrightarrow>
            command_loop env self (l # rest) =
              (fst (command_loop env self rest),
               Print Prompt # Print (File_not_found path) # snd (command_loop env self rest)))"
proof -
  from assms have d: "diagnose env self path = (Inr self, [Print (File_not_found path)])"
    by (simp add: diagnose_def)
  then show ?thesis by (auto simp: split_beta)
qed

text \<open>
  Claim C8. Exceptions are handled in one place, the handler around the whole program;
  neither \<^verbatim>\<open>diagnose\<close> nor the command loop catches anything. (An exception here is an
  instance of \<^verbatim>\<open>Exception\<close>: these are what the handler catches.)

  \<^item> A missing model file raises \<^verbatim>\<open>FileNotFoundError\<close> and an exception of \<^verbatim>\<open>load_model\<close>
    is raised by the constructor: the program ends with the critical-error line before any
    prompt.
  \<^item> An exception raised in the command loop ends the program with the critical-error line
    after what was printed so far. When the model loads and no input line is an exit
    command, the program ends with a critical-error line.
  \<^item> The command loop raises \<^verbatim>\<open>EOFError\<close> when the input is exhausted: it returns normally
    only on an exit command, so on an input without one it raises.
  \<^item> An exception raised by \<^verbatim>\<open>diagnose\<close> is raised by the loop at once, after the prompt and
    the events of this call, whatever input is left. Only when \<^verbatim>\<open>diagnose\<close> returns, or the
    path is empty, does the loop read the next line.
  \<^item> \<^verbatim>\<open>diagnose\<close> raises what loading the image raised and what inference raised, with
    nothing printed after the call; it raises \<^verbatim>\<open>IndexError\<close> when inference returns an empty
    batch; it raises \<^verbatim>\<open>KeyError\<close> at index 5 when the first row has more than five entries,
    and then prints no final diagnosis line.
  \<^item> A critical-error line is printed at most once and is the last event of the run: the
    loop never resumes after it.
\<close>

theorem C8_exceptions_reach_top_level:
  "(\<not> path_exists env MODEL_PATH \<longrightarrow>
      main env inputs =
        [Print Loading_AI_Brain, Print (Critical_Error (FileNotFoundError MODEL_PATH))]) \<and>
   (\<forall>e. path_exists env MODEL_PATH \<and> load_model env MODEL_PATH = Inl e \<longrightarrow>
      main env inputs =
        [Print Loading_AI_Brain, Call (Load_model MODEL_PATH), Print (Critical_Error e)]) \<and>
   (\<forall>d evs0 e evs.
      LungDoctor_init env = (Inr d, evs0) \<and> command_loop env d inputs = (Inl e, evs) \<longrightarrow>
      main env inputs = evs0 @ evs @ [Print (Critical_Error e)]) \<and>
   (\<forall>m. path_exists env MODEL_PATH \<and> load_model env MODEL_PATH = Inr m \<and>
        (\<forall>l \<in> set inputs. \<not> is_exit (clean l)) \<longrightarrow>
      (\<exists>e evs. main env inputs = evs @ [Print (Critical_Error e)])) \<and>
   (\<forall>d. command_loop env d [] = (Inl EOFError, [Print Prompt])) \<and>
   (\<forall>d. (\<forall>l \<in> set inputs. \<not> is_exit (clean l)) \<longrightarrow>
      (\<exists>e evs. command_loop env d inputs = (Inl e, evs))) \<and>
   (\<forall>d l rest e evs.
      clean l \<noteq> [] \<and> \<not> is_exit (clean l) \<and> diagnose env d (clean l) = (Inl e, evs) \<longrightarrow>
      command_loop env d (l # rest) = (Inl e, Print Prompt # evs)) \<and>
   (\<forall>d d' l rest evs.
      clean l \<noteq> [] \<and> \<not> is_exit (clean l) \<and> diagnose env d (clean l) = (Inr d', evs) \<longrightarrow>
      command_loop env d (l # rest) =
        (fst (command_loop env d' rest), Print Prompt # evs @ snd (command_loop env d' rest))) \<and>
   (\<forall>d l rest.
      clean l = [] \<longrightarrow>
      command_loop env d (l # rest) =
        (fst (command_loop env d rest), Print Prompt # snd (command_loop env d rest))) \<and>
   (\<forall>d path e.
      path_exists env path \<and> load_img env path = Inl e \<longrightarrow>
      diagnose env d path =
        (Inl e, [Print (Analyzing_Patient (basename env path)), Call (Load_img path)])) \<and>
   (\<forall>d path img e.
      path_exists env path \<and> load_img env path = Inr img \<and>
      predict env (model d) (map (map (map (map (\<lambda>x. x / 255)))) [img_to_array env img]) = Inl e \<longrightarrow>
      diagnose env d path =
        (Inl e,
         [Print (Analyzing_Patient (basename env path)), Call (Load_img path),
          Call (Predict (model d) (map (map (map (map (\<lambda>x. x / 255)))) [img_to_array env img]))])) \<and>
   (\<forall>d path img.
      path_exists env path \<and> load_img env path = Inr img \<and>
      predict env (model d) (map (map (map (map (\<lambda>x. x / 255)))) [img_to_array env img]) = Inr [] \<longrightarrow>
      diagnose env d path =
        (Inl IndexError,
         [Print (Analyzing_Patient (basename env path)), Call (Load_img path),
          Call (Predict (model d) (map (map (map (map (\<lambda>x. x / 255)))) [img_to_array env img]))])) \<and>
   (\<forall>d path img ps others.
      path_exists env path \<and> load_img env path = Inr img \<and>
      predict env (model d) (map (map (map (map (\<lambda>x. x / 255)))) [img_to_array env img]) =
        Inr (ps # others) \<and>
      5 < length ps \<longrightarrow>
      fst (diagnose env d path) = Inl (KeyError (Idx 5)) \<and>
      (\<forall>l. is_final_diagnosis l \<longrightarrow> Print l \<notin> set (snd (diagnose env d path)))) \<and>
   (\<forall>e. Print (Critical_Error e) \<in> set (main env inputs) \<longrightarrow>
      (\<exists>evs. main env inputs = evs @ [Print (Critical_Error e)] \<and>
             (\<forall>e'. Print (Critical_Error e') \<notin> set evs)))"
proof (intro conjI allI impI)
  assume "\<not> path_exists env MODEL_PATH"
  then show "main env inputs =
        [Print Loading_AI_Brain, Print (Critical_Error (FileNotFoundError MODEL_PATH))]"
    by (simp add: main_def LungDoctor_init_def)
next
  fix e
  assume "path_exists env MODEL_PATH \<and> load_model env MODEL_PATH = Inl e"
  then show "main env inputs =
        [Print Loading_AI_Brain, Call (Load_model MODEL_PATH), Print (Critical_Error e)]"
    by (simp add: main_def LungDoctor_init_def)
next
  fix d evs0 e evs
  assume "LungDoctor_init env = (Inr d, evs0) \<and> command_loop env d inputs = (Inl e, evs)"
  then show "main env inputs = evs0 @ evs @ [Print (Critical_Error e)]"
    by (simp add: main_def)
next
  fix m
  assume a: "path_exists env MODEL_PATH \<and> load_model env MODEL_PATH = Inr m \<and>
        (\<forall>l \<in> set inputs. \<not> is_exit (clean l))"
  then have init: "LungDoctor_init env =
      (Inr \<lparr>model = m\<rparr>,
       [Print Loading_AI_Brain, Call (Load_model MODEL_PATH), Print AI_System_Online])"
    by (simp add: LungDoctor_init_def)
  from a have "\<forall>l \<in> set inputs. \<not> is_exit (clean l)" by simp
  from command_loop_raises [OF this, of env "\<lparr>model = m\<rparr>"] obtain e evs where
    "command_loop env \<lparr>model = m\<rparr> inputs = (Inl e, evs)" by blast
  with init have "main env inputs =
      ([Print Loading_AI_Brain, Call (Load_model MODEL_PATH), Print AI_System_Online] @ evs)
      @ [Print (Critical_Error e)]"
    by (simp add: main_def)
  then show "\<exists>e evs. main env inputs = evs @ [Print (Critical_Error e)]" by blast
next
  fix d :: "'a LungDoctor"
  show "command_loop env d [] = (Inl EOFError, [Print Prompt])" by simp
next
  fix d :: "'a LungDoctor"
  assume "\<forall>l \<in> set inputs. \<not> is_exit (clean l)"
  then show "\<exists>e evs. command_loop env d inputs = (Inl e, evs)"
    by (rule command_loop_raises)
next
  fix d :: "'a LungDoctor" and l rest e evs
  assume "clean l \<noteq> [] \<and> \<not> is_exit (clean l) \<and> diagnose env d (clean l) = (Inl e, evs)"
  then show "command_loop env d (l # rest) = (Inl e, Print Prompt # evs)"
    by simp
next
  fix d d' :: "'a LungDoctor" and l rest evs
  assume "clean l \<noteq> [] \<and> \<not> is_exit (clean l) \<and> diagnose env d (clean l) = (Inr d', evs)"
  then show "command_loop env d (l # rest) =
        (fst (command_loop env d' rest), Print Prompt # evs @ snd (command_loop env d' rest))"
    by (simp add: split_beta)
next
  fix d :: "'a LungDoctor" and l rest
  assume "clean l = []"
  then show "command_loop env d (l # rest) =
        (fst (command_loop env d rest), Print Prompt # snd (command_loop env d rest))"
    by (simp add: split_beta is_exit_Nil)
next
  fix d :: "'a LungDoctor" and path e
  assume "path_exists env path \<and> load_img env path = Inl e"
  then show "diagnose env d path =
        (Inl e, [Print (Analyzing_Patient (basename env path)), Call (Load_img path)])"
    by (simp add: diagnose_def preprocess_image_def)
next
  fix d :: "'a LungDoctor" and path img e
  assume "path_exists env path \<and> load_img env path = Inr img \<and>
      predict env (model d) (map (map (map (map (\<lambda>x. x / 255)))) [img_to_array env img]) = Inl e"
  then show "diagnose env d path =
        (Inl e,
         [Print (Analyzing_Patient (basename env path)), Call (Load_img path),
          Call (Predict (model d) (map (map (map (map (\<lambda>x. x / 255)))) [img_to_array env img]))])"
    by (simp add: diagnose_def preprocess_image_def)
next
  fix d :: "'a LungDoctor" and path img
  assume "path_exists env path \<and> load_img env path = Inr img \<and>
      predict env (model d) (map (map (map (map (\<lambda>x. x / 255)))) [img_to_array env img]) = Inr []"
  then show "diagnose env d path =
        (Inl IndexError,
         [Print (Analyzing_Patient (basename env path)), Call (Load_img path),
          Call (Predict (model d) (map (map (map (map (\<lambda>x. x / 255)))) [img_to_array env img]))])"
    by (simp add: diagnose_def preprocess_image_def)
next
  fix d :: "'a LungDoctor" and path img ps others
  assume a: "path_exists env path \<and> load_img env path = Inr img \<and>
      predict env (model d) (map (map (map (map (\<lambda>x. x / 255)))) [img_to_array env img]) =
        Inr (ps # others) \<and>
      5 < length ps"
  then have long: "5 < length ps" by simp
  let ?rows = "List.map_filter (report_row (promote env)) (enumerate 0 (take 5 ps))"
  from a have dg: "diagnose env d path =
      (Inl (KeyError (Idx 5)),
       [Print (Analyzing_Patient (basename env path)), Call (Load_img path),
        Call (Predict (model d) (map (map (map (map (\<lambda>x. x / 255)))) [img_to_array env img])),
        Print Detailed_Report] @ map Print ?rows)"
    by (simp add: diagnose_def preprocess_image_def safety_rules_long [OF long])
  then show "fst (diagnose env d path) = Inl (KeyError (Idx 5))" by simp
  have rows: "\<not> is_final_diagnosis l" if "l \<in> set ?rows" for l
  proof -
    have "l \<in> set (snd (report_loop (promote env) (enumerate 0 ps) []))"
      using that by (simp add: report_loop_long [OF long])
    from report_loop_rows [OF this] show ?thesis by auto
  qed
  show "Print l \<notin> set (snd (diagnose env d path))" if "is_final_diagnosis l" for l
    unfolding dg using rows that by auto
next
  fix e
  assume c: "Print (Critical_Error e) \<in> set (main env inputs)"
  obtain r evs0 where init: "LungDoctor_init env = (r, evs0)"
    by (cases "LungDoctor_init env")
  from init_events [OF init] have n0: "\<forall>e'. Print (Critical_Error e') \<notin> set evs0" by simp
  show "\<exists>evs. main env inputs = evs @ [Print (Critical_Error e)] \<and>
             (\<forall>e'. Print (Critical_Error e') \<notin> set evs)"
  proof (cases r)
    case (Inl e0)
    with init have m: "main env inputs = evs0 @ [Print (Critical_Error e0)]"
      by (simp add: main_def)
    with c n0 have "e = e0" by auto
    with m n0 show ?thesis by auto
  next
    case (Inr d)
    obtain r' evs' where loop: "command_loop env d inputs = (r', evs')"
      by (cases "command_loop env d inputs")
    have n1: "\<forall>e'. Print (Critical_Error e') \<notin> set evs'"
      using command_loop_no_critical [of _ env d inputs] loop by simp
    show ?thesis
    proof (cases r')
      case (Inl e1)
      with init Inr loop have m: "main env inputs = (evs0 @ evs') @ [Print (Critical_Error e1)]"
        by (simp add: main_def)
      with c n0 n1 have "e = e1" by auto
      with m n0 n1 show ?thesis by (intro exI [of _ "evs0 @ evs'"]) auto
    next
      case (Inr d')
      with init \<open>r = Inr d\<close> loop have "main env inputs = evs0 @ evs'"
        by (simp add: main_def)
      with c n0 n1 show ?thesis by auto
    qed
  qed
qed


text \<open>
  The theorem in the demonstration environment, on the input lines \<^verbatim>\<open>xray.png\<close>, the same
  name between blanks, \<^verbatim>\<open>EXIT\<close> and one more line that is never read.
\<close>

theorem C6_model_loaded_once_witness:
  "path_exists demo_env MODEL_PATH \<and> load_model demo_env MODEL_PATH = Inr 7 \<and>
   length (filter is_load_model
     (main demo_env [str ''xray.png'', str ''  xray.png '', str ''EXIT'', str ''xray.png''])) = 1 \<and>
   main demo_env [str ''xray.png'', str ''  xray.png '', str ''EXIT'', str ''xray.png''] =
     [Print Loading_AI_Brain,
      Call (Load_model (str ''final_lung_ai_v1.h5'')),
      Print AI_System_Online,
      Print Prompt,
      Print (Analyzing_Patient (str ''xray.png'')),
      Call (Load_img (str ''xray.png'')),
      Call (Predict 7 [[[[1, 0, 1]]]]),
      Print Detailed_Report,
      Print (Row ''Covid'' (1 / 2) (8942347420106857 / 72057594037927936) DETECTED),
      Print (Row ''Normal'' (1 / 4) (5948354387830951 / 36028797018963968) DETECTED),
      Print (Row ''Pneumonia'' 0 (657750725577461 / 2251799813685248) Clear),
      Print (Row ''Tuberculosis'' 0 (6362685553549037 / 36028797018963968) Clear),
      Print (Row ''Tumor'' 0 (7270611238426929 / 72057594037927936) Clear),
      Print Rule,
      Print (Signs_of ''Covid''),
      Print Prompt,
      Print (Analyzing_Patient (str ''xray.png'')),
      Call (Load_img (str ''xray.png'')),
      Call (Predict 7 [[[[1, 0, 1]]]]),
      Print Detailed_Report,
      Print (Row ''Covid'' (1 / 2) (8942347420106857 / 72057594037927936) DETECTED),
      Print (Row ''Normal'' (1 / 4) (5948354387830951 / 36028797018963968) DETECTED),
      Print (Row ''Pneumonia'' 0 (657750725577461 / 2251799813685248) Clear),
      Print (Row ''Tuberculosis'' 0 (6362685553549037 / 36028797018963968) Clear),
      Print (Row ''Tumor'' 0 (7270611238426929 / 72057594037927936) Clear),
      Print Rule,
      Print (Signs_of ''Covid''),
      Print Prompt]"
proof -
  let ?inputs = "[str ''xray.png'', str ''  xray.png '', str ''EXIT'', str ''xray.png'']"
  have h: "path_exists demo_env MODEL_PATH \<and> load_model demo_env MODEL_PATH = Inr 7"
    by (simp add: init_demo)
  have loop: "command_loop demo_env \<lparr>model = 7\<rparr> ?inputs =
     (Inr \<lparr>model = 7\<rparr>,
      [Print Prompt,
       Print (Analyzing_Patient (str ''xray.png'')),
       Call (Load_img (str ''xray.png'')),
       Call (Predict 7 [[[[1, 0, 1]]]]),
       Print Detailed_Report,
       Print (Row ''Covid'' (1 / 2) (8942347420106857 / 72057594037927936) DETECTED),
       Print (Row ''Normal'' (1 / 4) (5948354387830951 / 36028797018963968) DETECTED),
       Print (Row ''Pneumonia'' 0 (657750725577461 / 2251799813685248) Clear),
       Print (Row ''Tuberculosis'' 0 (6362685553549037 / 36028797018963968) Clear),
       Print (Row ''Tumor'' 0 (7270611238426929 / 72057594037927936) Clear),
       Print Rule,
       Print (Signs_of ''Covid''),
       Print Prompt,
       Print (Analyzing_Patient (str ''xray.png'')),
       Call (Load_img (str ''xray.png'')),
       Call (Predict 7 [[[[1, 0, 1]]]]),
       Print Detailed_Report,
       Print (Row ''Covid'' (1 / 2) (8942347420106857 / 72057594037927936) DETECTED),
       Print (Row ''Normal'' (1 / 4) (5948354387830951 / 36028797018963968) DETECTED),
       Print (Row ''Pneumonia'' 0 (657750725577461 / 2251799813685248) Clear),
       Print (Row ''Tuberculosis'' 0 (6362685553549037 / 36028797018963968) Clear),
       Print (Row ''Tumor'' 0 (7270611238426929 / 72057594037927936) Clear),
       Print Rule,
       Print (Signs_of ''Covid''),
       Print Prompt])"
    by (simp add: clean_demo is_exit_demo str_nonempty diagnose_demo_xray Let_def)
  note t = C6_model_loaded_once [of demo_env ?inputs]
  from t h obtain evs where
    m: "main demo_env ?inputs =
          [Print Loading_AI_Brain, Call (Load_model MODEL_PATH), Print AI_System_Online] @ evs"
    and evs: "evs = snd (command_loop demo_env \<lparr>model = 7\<rparr> ?inputs) @
          (case fst (command_loop demo_env \<lparr>model = 7\<rparr> ?inputs) of
             Inl e \<Rightarrow> [Print (Critical_Error e)] | Inr d \<Rightarrow> [])"
    by blast
  from t h have one: "length (filter is_load_model (main demo_env ?inputs)) = 1" by blast
  from m evs loop one h show ?thesis by (simp add: MODEL_PATH_def del: command_loop.simps)
qed

text \<open>
  The theorem in the demonstration environment: the same file given twice is loaded and
  classified twice.
\<close>

theorem C7_sequential_iteration_witness:
  "clean (str ''  xray.png '') = str ''xray.png'' \<and> str ''xray.png'' \<noteq> [] \<and>
   \<not> is_exit (str ''xray.png'') \<and>
   path_exists demo_env (str ''xray.png'') \<and> load_img demo_env (str ''xray.png'') = Inr () \<and>
   map (map (map (map (\<lambda>x. x / 255)))) [img_to_array demo_env ()] = [[[[1, 0, 1]]]] \<and>
   predict demo_env 7 [[[[1, 0, 1]]]] = Inr [[1 / 2, 1 / 4, 0, 0, 0]] \<and>
   command_loop demo_env \<lparr>model = 7\<rparr> [str ''  xray.png '', str ''xray.png'', str ''exit''] =
     (Inr \<lparr>model = 7\<rparr>,
      [Print Prompt,
       Print (Analyzing_Patient (str ''xray.png'')),
       Call (Load_img (str ''xray.png'')),
       Call (Predict 7 [[[[1, 0, 1]]]]),
       Print Detailed_Report,
       Print (Row ''Covid'' (1 / 2) (8942347420106857 / 72057594037927936) DETECTED),
       Print (Row ''Normal'' (1 / 4) (5948354387830951 / 36028797018963968) DETECTED),
       Print (Row ''Pneumonia'' 0 (657750725577461 / 2251799813685248) Clear),
       Print (Row ''Tuberculosis'' 0 (6362685553549037 / 36028797018963968) Clear),
       Print (Row ''Tumor'' 0 (7270611238426929 / 72057594037927936) Clear),
       Print Rule,
       Print (Signs_of ''Covid''),
       Print Prompt,
       Print (Analyzing_Patient (str ''xray.png'')),
       Call (Load_img (str ''xray.png'')),
       Call (Predict 7 [[[[1, 0, 1]]]]),
       Print Detailed_Report,
       Print (Row ''Covid'' (1 / 2) (8942347420106857 / 72057594037927936) DETECTED),
       Print (Row ''Normal'' (1 / 4) (5948354387830951 / 36028797018963968) DETECTED),
       Print (Row ''Pneumonia'' 0 (657750725577461 / 2251799813685248) Clear),
       Print (Row ''Tuberculosis'' 0 (6362685553549037 / 36028797018963968) Clear),
       Print (Row ''Tumor'' 0 (7270611238426929 / 72057594037927936) Clear),
       Print Rule,
       Print (Signs_of ''Covid''),
       Print Prompt])"
proof -
  have arr: "map (map (map (map (\<lambda>x. x / 255)))) [img_to_array demo_env ()] = [[[[1, 0, 1 :: rat]]]]"
    by (simp add: demo_env_xray)
  have rest: "command_loop demo_env \<lparr>model = 7\<rparr> [str ''xray.png'', str ''exit''] =
     (Inr \<lparr>model = 7\<rparr>,
      [Print Prompt,
       Print (Analyzing_Patient (str ''xray.png'')),
       Call (Load_img (str ''xray.png'')),
       Call (Predict 7 [[[[1, 0, 1]]]]),
       Print Detailed_Report,
       Print (Row ''Covid'' (1 / 2) (8942347420106857 / 72057594037927936) DETECTED),
       Print (Row ''Normal'' (1 / 4) (5948354387830951 / 36028797018963968) DETECTED),
       Print (Row ''Pneumonia'' 0 (657750725577461 / 2251799813685248) Clear),
       Print (Row ''Tuberculosis'' 0 (6362685553549037 / 36028797018963968) Clear),
       Print (Row ''Tumor'' 0 (7270611238426929 / 72057594037927936) Clear),
       Print Rule,
       Print (Signs_of ''Covid''),
       Print Prompt])"
    by (simp add: clean_demo is_exit_demo str_nonempty diagnose_demo_xray Let_def)
  note t = C7_sequential_iteration [of "str ''  xray.png ''" "str ''xray.png''" demo_env
      "\<lparr>model = 7\<rparr>" "[str ''xray.png'', str ''exit'']",
      OF clean_demo(2) str_nonempty(1) is_exit_demo(1), THEN conjunct1, rule_format,
      of "()" "[[[[1, 0, 1]]]]" "[1 / 2, 1 / 4, 0, 0, 0]" "[]"
         "snd (safety_rules compare_in_float32 [1 / 2, 1 / 4, 0, 0, 0])"]
  have "command_loop demo_env \<lparr>model = 7\<rparr>
          (str ''  xray.png '' # [str ''xray.png'', str ''exit'']) =
      (fst (command_loop demo_env \<lparr>model = 7\<rparr> [str ''xray.png'', str ''exit'']),
       [Print Prompt, Print (Analyzing_Patient (basename demo_env (str ''xray.png''))),
        Call (Load_img (str ''xray.png'')),
        Call (Predict (model \<lparr>model = 7\<rparr>) [[[[1, 0, 1]]]])]
       @ map Print (snd (safety_rules compare_in_float32 [1 / 2, 1 / 4, 0, 0, 0]))
       @ snd (command_loop demo_env \<lparr>model = 7\<rparr> [str ''xray.png'', str ''exit'']))"
    by (rule t) (simp add: demo_env_xray safety_rules_demo)
  then show ?thesis
    unfolding rest safety_rules_demo
    using clean_demo(2) str_nonempty(1) is_exit_demo(1) demo_env_xray(1,2,4) arr
    by (simp add: demo_env_xray(6) del: command_loop.simps)
qed

text \<open>
  The theorem in the demonstration environment, on a file that does not exist.
\<close>

theorem C9_missing_file_witness:
  "\<not> path_exists demo_env (str ''nofile.png'') \<and>
   clean (str '' nofile.png'') = str ''nofile.png'' \<and> \<not> is_exit (str ''nofile.png'') \<and>
   diagnose demo_env \<lparr>model = 7\<rparr> (str ''nofile.png'') =
     (Inr \<lparr>model = 7\<rparr>, [Print (File_not_found (str ''nofile.png''))]) \<and>
   command_loop demo_env \<lparr>model = 7\<rparr> [str '' nofile.png'', str ''quit''] =
     (Inr \<lparr>model = 7\<rparr>,
      [Print Prompt, Print (File_not_found (str ''nofile.png'')), Print Prompt])"
proof -
  have h: "\<not> path_exists demo_env (str ''nofile.png'')"
    by (simp add: demo_env_def MODEL_PATH_def str_def)
  have q: "command_loop demo_env \<lparr>model = 7\<rparr> [str ''quit''] =
      (Inr \<lparr>model = 7\<rparr>, [Print Prompt])"
    by (simp add: clean_demo is_exit_demo Let_def)
  note t = C9_missing_file [OF h, of "\<lparr>model = 7\<rparr>"]
  from t have d: "diagnose demo_env \<lparr>model = 7\<rparr> (str ''nofile.png'') =
     (Inr \<lparr>model = 7\<rparr>, [Print (File_not_found (str ''nofile.png''))])"
    by (rule conjunct1)
  from t clean_demo(4) is_exit_demo(3) str_nonempty(3)
  have "command_loop demo_env \<lparr>model = 7\<rparr> [str '' nofile.png'', str ''quit''] =
      (fst (command_loop demo_env \<lparr>model = 7\<rparr> [str ''quit'']),
       Print Prompt # Print (File_not_found (str ''nofile.png'')) #
       snd (command_loop demo_env \<lparr>model = 7\<rparr> [str ''quit'']))"
    by blast
  then have "command_loop demo_env \<lparr>model = 7\<rparr> [str '' nofile.png'', str ''quit''] =
      (Inr \<lparr>model = 7\<rparr>,
       [Print Prompt, Print (File_not_found (str ''nofile.png'')), Print Prompt])"
    unfolding q by simp
  with h clean_demo(4) is_exit_demo(3) d show ?thesis by (simp del: command_loop.simps)
qed

text \<open>
  The theorem in the demonstration environment: the image library cannot read \<^verbatim>\<open>bad.png\<close>,
  and the two input lines after it are never read. Beside it, three more runs: the input
  that ends before any exit command, the model that returns an empty batch, and the model
  that returns six probabilities.
\<close>

theorem C8_exceptions_reach_top_level_witness:
  "path_exists demo_env MODEL_PATH \<and>
   LungDoctor_init demo_env =
     (Inr \<lparr>model = 7\<rparr>,
      [Print Loading_AI_Brain, Call (Load_model MODEL_PATH), Print AI_System_Online]) \<and>
   path_exists demo_env (str ''bad.png'') \<and>
   load_img demo_env (str ''bad.png'') = Inl (LibraryError ''cannot identify image file'') \<and>
   command_loop demo_env \<lparr>model = 7\<rparr> [str ''bad.png'', str ''xray.png'', str ''exit''] =
     (Inl (LibraryError ''cannot identify image file''),
      [Print Prompt, Print (Analyzing_Patient (str ''bad.png'')),
       Call (Load_img (str ''bad.png''))]) \<and>
   main demo_env [str ''bad.png'', str ''xray.png'', str ''exit''] =
     [Print Loading_AI_Brain, Call (Load_model MODEL_PATH), Print AI_System_Online,
      Print Prompt, Print (Analyzing_Patient (str ''bad.png'')),
      Call (Load_img (str ''bad.png'')),
      Print (Critical_Error (LibraryError ''cannot identify image file''))] \<and>
   main demo_env [] =
     [Print Loading_AI_Brain, Call (Load_model MODEL_PATH), Print AI_System_Online,
      Print Prompt, Print (Critical_Error EOFError)] \<and>
   predict empty_env 7 [[[[1, 0, 1]]]] = Inr [] \<and>
   main empty_env [str ''xray.png'', str ''exit''] =
     [Print Loading_AI_Brain, Call (Load_model MODEL_PATH), Print AI_System_Online,
      Print Prompt, Print (Analyzing_Patient (str ''xray.png'')),
      Call (Load_img (str ''xray.png'')), Call (Predict 7 [[[[1, 0, 1]]]]),
      Print (Critical_Error IndexError)] \<and>
   predict wide_env 7 [[[[1, 0, 1]]]] = Inr [[1 / 2, 1 / 4, 0, 0, 0, 1 / 2]] \<and>
   main wide_env [str ''xray.png'', str ''exit''] =
     [Print Loading_AI_Brain, Call (Load_model MODEL_PATH), Print AI_System_Online,
      Print Prompt, Print (Analyzing_Patient (str ''xray.png'')),
      Call (Load_img (str ''xray.png'')), Call (Predict 7 [[[[1, 0, 1]]]]),
      Print Detailed_Report,
      Print (Row ''Covid'' (1 / 2) (8942347420106857 / 72057594037927936) DETECTED),
      Print (Row ''Normal'' (1 / 4) (5948354387830951 / 36028797018963968) DETECTED),
      Print (Row ''Pneumonia'' 0 (657750725577461 / 2251799813685248) Clear),
      Print (Row ''Tuberculosis'' 0 (6362685553549037 / 36028797018963968) Clear),
      Print (Row ''Tumor'' 0 (7270611238426929 / 72057594037927936) Clear),
      Print (Critical_Error (KeyError (Idx 5)))]"
proof -
  let ?e = "LibraryError ''cannot identify image file''"
  let ?inputs = "[str ''bad.png'', str ''xray.png'', str ''exit'']"
  have init: "path_exists demo_env MODEL_PATH \<and>
      LungDoctor_init demo_env =
        (Inr \<lparr>model = 7\<rparr>,
         [Print Loading_AI_Brain, Call (Load_model MODEL_PATH), Print AI_System_Online])"
    by (simp add: init_demo)
  have bad: "path_exists demo_env (str ''bad.png'') \<and> load_img demo_env (str ''bad.png'') = Inl ?e"
    by (simp add: demo_env_def)
  have bn: "basename demo_env (str ''bad.png'') = str ''bad.png''"
    by (simp add: demo_env_def)
  note t = C8_exceptions_reach_top_level [of demo_env ?inputs]
  note t_main = t [THEN conjunct2, THEN conjunct2, THEN conjunct1, rule_format]
  note t_loop = t [THEN conjunct2, THEN conjunct2, THEN conjunct2, THEN conjunct2, THEN conjunct2, THEN conjunct2, THEN conjunct1, rule_format]
  note t_img = t [THEN conjunct2, THEN conjunct2, THEN conjunct2, THEN conjunct2, THEN conjunct2, THEN conjunct2, THEN conjunct2, THEN conjunct2, THEN conjunct2, THEN conjunct1, rule_format]
  from bad have d: "diagnose demo_env \<lparr>model = 7\<rparr> (str ''bad.png'') =
      (Inl ?e, [Print (Analyzing_Patient (basename demo_env (str ''bad.png''))),
                Call (Load_img (str ''bad.png''))])"
    by (intro t_img) simp
  from clean_demo(3) is_exit_demo(2) str_nonempty(2) d
  have pre: "clean (str ''bad.png'') \<noteq> [] \<and> \<not> is_exit (clean (str ''bad.png'')) \<and>
      diagnose demo_env \<lparr>model = 7\<rparr> (clean (str ''bad.png'')) =
        (Inl ?e, [Print (Analyzing_Patient (basename demo_env (str ''bad.png''))),
                  Call (Load_img (str ''bad.png''))])"
    by simp
  from pre have loop: "command_loop demo_env \<lparr>model = 7\<rparr>
        (str ''bad.png'' # [str ''xray.png'', str ''exit'']) =
      (Inl ?e, Print Prompt #
         [Print (Analyzing_Patient (basename demo_env (str ''bad.png''))),
          Call (Load_img (str ''bad.png''))])"
    by (intro t_loop) simp
  from init loop have m: "main demo_env ?inputs =
      [Print Loading_AI_Brain, Call (Load_model MODEL_PATH), Print AI_System_Online]
      @ (Print Prompt #
           [Print (Analyzing_Patient (basename demo_env (str ''bad.png''))),
            Call (Load_img (str ''bad.png''))])
      @ [Print (Critical_Error ?e)]"
    by (intro t_main) (simp del: command_loop.simps)
  have eof: "main demo_env [] =
     [Print Loading_AI_Brain, Call (Load_model MODEL_PATH), Print AI_System_Online,
      Print Prompt, Print (Critical_Error EOFError)]"
    by (simp add: main_def init_demo)
  have ie: "LungDoctor_init empty_env = LungDoctor_init demo_env"
    and iw: "LungDoctor_init wide_env = LungDoctor_init demo_env"
    by (simp_all add: LungDoctor_init_def empty_env_def wide_env_def)
  have pe: "predict empty_env 7 [[[[1, 0, 1]]]] = Inr []"
    by (simp add: empty_env_def)
  have de: "diagnose empty_env \<lparr>model = 7\<rparr> (str ''xray.png'') =
      (Inl IndexError,
       [Print (Analyzing_Patient (str ''xray.png'')), Call (Load_img (str ''xray.png'')),
        Call (Predict 7 [[[[1, 0, 1]]]])])"
    by (simp add: diagnose_def preprocess_image_def empty_env_def demo_env_def str_def Let_def)
  have me: "main empty_env [str ''xray.png'', str ''exit''] =
     [Print Loading_AI_Brain, Call (Load_model MODEL_PATH), Print AI_System_Online,
      Print Prompt, Print (Analyzing_Patient (str ''xray.png'')),
      Call (Load_img (str ''xray.png'')), Call (Predict 7 [[[[1, 0, 1]]]]),
      Print (Critical_Error IndexError)]"
    by (simp add: main_def ie init_demo clean_demo is_exit_demo str_nonempty de Let_def)
  have mw: "main wide_env [str ''xray.png'', str ''exit''] =
     [Print Loading_AI_Brain, Call (Load_model MODEL_PATH), Print AI_System_Online,
      Print Prompt, Print (Analyzing_Patient (str ''xray.png'')),
      Call (Load_img (str ''xray.png'')), Call (Predict 7 [[[[1, 0, 1]]]]),
      Print Detailed_Report,
      Print (Row ''Covid'' (1 / 2) (8942347420106857 / 72057594037927936) DETECTED),
      Print (Row ''Normal'' (1 / 4) (5948354387830951 / 36028797018963968) DETECTED),
      Print (Row ''Pneumonia'' 0 (657750725577461 / 2251799813685248) Clear),
      Print (Row ''Tuberculosis'' 0 (6362685553549037 / 36028797018963968) Clear),
      Print (Row ''Tumor'' 0 (7270611238426929 / 72057594037927936) Clear),
      Print (Critical_Error (KeyError (Idx 5)))]"
    by (simp add: main_def iw init_demo clean_demo is_exit_demo str_nonempty
        diagnose_wide_xray Let_def)
  from m init bad loop eof pe me wide_env_xray(4) mw show ?thesis
    by (simp add: bn del: command_loop.simps)
qed

end
